theory Spec2Isabelle
  imports Main "HOL-Library.AList" "HOL-Library.Char_ord" "HOL-Library.List_Lexorder"
begin

section \<open>Library semantics the bot relies on\<close>

subsection \<open>Calendar dates (Python's \<open>datetime\<close>)\<close>

text \<open>
  The bot stores dates as text in the form \<open>YYYY-MM-DD\<close> and parses them with
  \<open>datetime.strptime(s, "%Y-%m-%d")\<close>. A date text is modelled by its three numbers;
  parsing succeeds exactly on the triples that name a day of the proleptic Gregorian
  calendar between the years 1 and 9999, and raises \<open>ValueError\<close> otherwise.
  The functions below follow the arithmetic of the \<open>datetime\<close> module.
\<close>

datatype date = Date (year: nat) (month: nat) (day: nat)

definition is_leap :: "nat \<Rightarrow> bool" where
  "is_leap y = (y mod 4 = 0 \<and> (y mod 100 \<noteq> 0 \<or> y mod 400 = 0))"

definition days_in_month_tbl :: "nat \<Rightarrow> nat" where
  "days_in_month_tbl m = [0, 31, 28, 31, 30, 31, 30, 31, 31, 30, 31, 30, 31] ! m"

definition days_before_month_tbl :: "nat \<Rightarrow> nat" where
  "days_before_month_tbl m = [0, 0, 31, 59, 90, 120, 151, 181, 212, 243, 273, 304, 334] ! m"

definition days_in_month :: "nat \<Rightarrow> nat \<Rightarrow> nat" where
  "days_in_month y m = (if m = 2 \<and> is_leap y then 29 else days_in_month_tbl m)"

definition days_before_year :: "nat \<Rightarrow> int" where
  "days_before_year y =
     (let p = int y - 1 in p * 365 + p div 4 - p div 100 + p div 400)"

definition days_before_month :: "nat \<Rightarrow> nat \<Rightarrow> nat" where
  "days_before_month y m = days_before_month_tbl m + (if 2 < m \<and> is_leap y then 1 else 0)"

definition valid_date :: "date \<Rightarrow> bool" where
  "valid_date d =
     (1 \<le> year d \<and> year d \<le> 9999 \<and> 1 \<le> month d \<and> month d \<le> 12 \<and>
      1 \<le> day d \<and> day d \<le> days_in_month (year d) (month d))"

definition ymd2ord :: "date \<Rightarrow> int" where
  "ymd2ord d =
     days_before_year (year d) + int (days_before_month (year d) (month d)) + int (day d)"

definition max_ordinal :: int where
  "max_ordinal = 3652059"

definition ord2ymd :: "int \<Rightarrow> date" where
  "ord2ymd n0 =
     (let n = n0 - 1;
          n400 = n div 146097; n = n mod 146097;
          n100 = n div 36524; n = n mod 36524;
          n4 = n div 1461; n = n mod 1461;
          n1 = n div 365; n = n mod 365;
          y = n400 * 400 + 1 + n100 * 100 + n4 * 4 + n1
      in if n1 = 4 \<or> n100 = 4 then Date (nat (y - 1)) 12 31
         else
           let leapyear = (n1 = 3 \<and> (n4 \<noteq> 24 \<or> n100 = 3));
               m = nat ((n + 50) div 32);
               preceding = int (days_before_month_tbl m) + (if 2 < m \<and> leapyear then 1 else 0)
           in if n < preceding
              then let m' = m - 1;
                       preceding' = preceding
                         - (int (days_in_month_tbl m') + (if m' = 2 \<and> leapyear then 1 else 0))
                   in Date (nat y) m' (nat (n - preceding' + 1))
              else Date (nat y) m (nat (n - preceding + 1)))"

text \<open>\<open>strptime\<close>: the parsed value, or nothing where Python raises.\<close>

definition strptime :: "date \<Rightarrow> date option" where
  "strptime d = (if valid_date d then Some d else None)"

text \<open>\<open>d + timedelta(days=k)\<close>; Python raises \<open>OverflowError\<close> outside the
  supported range of years.\<close>

definition add_days :: "date \<Rightarrow> int \<Rightarrow> date option" where
  "add_days d k =
     (let n = ymd2ord d + k in if 1 \<le> n \<and> n \<le> max_ordinal then Some (ord2ymd n) else None)"

text \<open>\<open>weekday()\<close>: 0 is Monday.\<close>

definition weekday :: "date \<Rightarrow> int" where
  "weekday d = (ymd2ord d + 6) mod 7"

definition isoweek1monday :: "nat \<Rightarrow> int" where
  "isoweek1monday y =
     (let firstday = ymd2ord (Date y 1 1);
          firstweekday = (firstday + 6) mod 7;
          week1monday = firstday - firstweekday
      in if 3 < firstweekday then week1monday + 7 else week1monday)"

text \<open>\<open>isocalendar()\<close>: ISO year, ISO week number, ISO weekday.\<close>

definition isocalendar :: "date \<Rightarrow> int \<times> int \<times> int" where
  "isocalendar d =
     (let y = year d;
          today = ymd2ord d;
          week = (today - isoweek1monday y) div 7;
          wd = (today - isoweek1monday y) mod 7
      in if week < 0
         then let w1 = isoweek1monday (y - 1)
              in (int y - 1, (today - w1) div 7 + 1, (today - w1) mod 7 + 1)
         else if 52 \<le> week \<and> isoweek1monday (y + 1) \<le> today
         then (int y + 1, 1, wd + 1)
         else (int y, week + 1, wd + 1))"

definition iso_year :: "date \<Rightarrow> int" where
  "iso_year d = fst (isocalendar d)"

definition iso_week :: "date \<Rightarrow> int" where
  "iso_week d = fst (snd (isocalendar d))"

subsection \<open>Points in time\<close>

text \<open>
  A \<open>datetime\<close> is a number of microseconds counted from the start of day 0 of the
  ordinal calendar, so that comparing two points in time is comparing two integers, and the
  ISO text of a point in time orders as the point itself does. One call of the bot reads
  the clock once: the reading is the parameter \<open>now\<close> of the operations below.
\<close>

type_synonym datetime = int

definition us_per_day :: int where
  "us_per_day = 86400000000"

definition timedelta_days :: "int \<Rightarrow> int" where
  "timedelta_days k = k * us_per_day"

definition date_ordinal :: "datetime \<Rightarrow> int" where
  "date_ordinal t = t div us_per_day"

definition date_of :: "datetime \<Rightarrow> date" where
  "date_of t = ord2ymd (date_ordinal t)"

definition at_midnight :: "date \<Rightarrow> datetime" where
  "at_midnight d = ymd2ord d * us_per_day"

subsection \<open>Text\<close>

text \<open>
  Python text is modelled as \<open>string\<close>, one \<open>char\<close> for each code point below 256.
  \<open>str(n)\<close> of a natural number is its decimal numeral.
\<close>

definition digit_char :: "nat \<Rightarrow> char" where
  "digit_char n = char_of (48 + n)"

fun str_nat :: "nat \<Rightarrow> string" where
  "str_nat n = (if n < 10 then [digit_char n] else str_nat (n div 10) @ [digit_char (n mod 10)])"

declare str_nat.simps [simp del]

text \<open>The format \<open>{n:02d}\<close>: at least two digits, padded with a zero.\<close>

definition fmt_02d :: "nat \<Rightarrow> string" where
  "fmt_02d n = (if n < 10 then CHR ''0'' # str_nat n else str_nat n)"

text \<open>The characters \<open>str.strip()\<close> removes: those for which \<open>str.isspace()\<close> holds.\<close>

definition is_space :: "char \<Rightarrow> bool" where
  "is_space c =
     (let n = (of_char c :: nat)
      in (9 \<le> n \<and> n \<le> 13) \<or> (28 \<le> n \<and> n \<le> 32) \<or> n = 133 \<or> n = 160)"

definition strip :: "string \<Rightarrow> string" where
  "strip s = rev (dropWhile is_space (rev (dropWhile is_space s)))"

section \<open>The stored data\<close>

type_synonym user_id = int

datatype py_error = ValueError | OverflowError | TypeError | AttributeError

text \<open>
  A check-in session. \<open>ss_date\<close> is the entry's \<open>date\<close> value, \<open>None\<close> where the
  entry holds no date; the user id and the session type are taken to be present in every
  entry. The answers are kept as they were given.
\<close>

record session =
  ss_user_id :: user_id
  ss_session_type :: string
  ss_timestamp :: datetime
  ss_date :: "date option"
  ss_responses :: "(string \<times> string) list"

record report =
  rp_week_start :: date
  rp_week_end :: date
  rp_generated_at :: datetime
  rp_report_content :: string
  rp_input_data :: string
  rp_data_days_count :: nat
  rp_week_number :: int
  rp_year :: nat
  rp_llm_model :: "string option"
  rp_generation_attempts :: nat

text \<open>An entry of \<open>failed_reports\<close> in the JSON file.\<close>

record failure =
  fl_timestamp :: datetime
  fl_week_start :: date
  fl_error :: string
  fl_model :: string
  fl_retry_scheduled :: "datetime option"

text \<open>What \<open>get_pending_report_retries\<close> returns for one retry.\<close>

record retry_info =
  ri_user_id :: user_id
  ri_week_start :: date
  ri_original_error :: string
  ri_attempts :: nat

text \<open>
  The JSON file. \<open>weekly_reports\<close> is a dictionary of dictionaries, looked up by key
  only; \<open>failed_reports\<close> is a dictionary that is iterated, so it keeps its insertion
  order as an association list (\<open>AList.update\<close> is Python's item assignment,
  \<open>AList.delete\<close> is \<open>del\<close>).
\<close>

record json_data =
  jd_responses :: "session list"
  jd_user_preferences :: "user_id \<rightharpoonup> (string \<times> string) list"
  jd_weekly_reports :: "user_id \<rightharpoonup> (string \<rightharpoonup> report)"
  jd_failed_reports :: "(user_id \<times> failure list) list"
  jd_last_report_generated :: "datetime option"

text \<open>
  The rows of the SQLite tables. The database is used with two clocks: the bot reads
  Python's local clock (\<open>datetime.now()\<close>), while SQLite fills its time columns and
  evaluates \<open>DATE('now', ...)\<close> in UTC. \<open>db_utc_offset\<close> is what the local clock of the
  process is ahead of UTC, in microseconds (negative west of Greenwich).
\<close>

record report_row =
  rr_user_id :: user_id
  rr_week_key :: string
  rr_report :: report

record failed_row =
  fr_user_id :: user_id
  fr_week_start :: date
  fr_error_message :: string
  fr_model :: string
  fr_retry_scheduled :: "datetime option"
  fr_created_at :: datetime

record admin_row =
  an_notification_type :: string
  an_user_id :: "user_id option"
  an_message :: string
  an_created_at :: datetime

record sqlite_db =
  db_sessions :: "session list"
  db_user_preferences :: "user_id \<rightharpoonup> (string \<times> string) list"
  db_weekly_reports :: "report_row list"
  db_failed_reports :: "failed_row list"
  db_admin_notifications :: "admin_row list"
  db_utc_offset :: int

text \<open>The facade \<open>DataHandler\<close> delegates to the backend that is active.\<close>

datatype data_handler = JSONBackend json_data | SQLiteBackend sqlite_db

section \<open>The week key\<close>

text \<open>
  Both backends build the key of a weekly report with the same expression,
  \<open>f"{week_date.year}_week_{week_date.isocalendar()[1]:02d}"\<close>: the calendar year of
  the date and its ISO week number.
\<close>

definition week_key_of :: "date \<Rightarrow> string" where
  "week_key_of week_date =
     str_nat (year week_date) @ ''_week_'' @ fmt_02d (nat (iso_week week_date))"

definition week_key :: "date \<Rightarrow> string option" where
  "week_key week_start = map_option week_key_of (strptime week_start)"

section \<open>The JSON backend\<close>

definition date_between :: "date \<Rightarrow> date \<Rightarrow> date \<Rightarrow> bool" where
  "date_between lo d hi = (ymd2ord lo \<le> ymd2ord d \<and> ymd2ord d \<le> ymd2ord hi)"

definition unparsable :: "session \<Rightarrow> bool" where
  "unparsable s = (case ss_date s of None \<Rightarrow> True | Some d \<Rightarrow> strptime d = None)"

definition session_in_week :: "date \<Rightarrow> date \<Rightarrow> session \<Rightarrow> bool" where
  "session_in_week lo hi s = (case ss_date s of None \<Rightarrow> False | Some d \<Rightarrow> date_between lo d hi)"

text \<open>Any exception inside \<open>get_week_sessions\<close> is logged and the empty list returned.\<close>

definition json_get_week_sessions :: "json_data \<Rightarrow> user_id \<Rightarrow> date \<Rightarrow> session list" where
  "json_get_week_sessions data u week_start_date =
     (case strptime week_start_date of
        None \<Rightarrow> []
      | Some start_date \<Rightarrow>
          (case add_days start_date 6 of
             None \<Rightarrow> []
           | Some end_date \<Rightarrow>
               let mine = filter (\<lambda>s. ss_user_id s = u) (jd_responses data)
               in if list_ex unparsable mine then []
                  else sort_key ss_timestamp (filter (session_in_week start_date end_date) mine)))"

definition make_report :: "datetime \<Rightarrow> date \<Rightarrow> date \<Rightarrow> string \<Rightarrow> string \<Rightarrow> nat \<Rightarrow> string option \<Rightarrow> report" where
  "make_report now week_date week_end report_content input_data data_days_count llm_model =
     \<lparr> rp_week_start = week_date, rp_week_end = week_end, rp_generated_at = now,
       rp_report_content = report_content, rp_input_data = input_data,
       rp_data_days_count = data_days_count, rp_week_number = iso_week week_date,
       rp_year = year week_date, rp_llm_model = llm_model, rp_generation_attempts = 1 \<rparr>"

text \<open>\<open>save_weekly_report\<close> logs an exception and raises it again.\<close>

definition json_save_weekly_report ::
  "datetime \<Rightarrow> json_data \<Rightarrow> user_id \<Rightarrow> date \<Rightarrow> string \<Rightarrow> string \<Rightarrow> nat \<Rightarrow> string option
     \<Rightarrow> py_error + json_data" where
  "json_save_weekly_report now data u week_start report_content input_data data_days_count llm_model =
     (case strptime week_start of
        None \<Rightarrow> Inl ValueError
      | Some week_date \<Rightarrow>
          (case add_days week_date 6 of
             None \<Rightarrow> Inl OverflowError
           | Some week_end \<Rightarrow>
               let user_reports = (case jd_weekly_reports data u of None \<Rightarrow> Map.empty | Some r \<Rightarrow> r);
                   entry = make_report now week_date week_end report_content input_data
                             data_days_count llm_model
               in Inr (data\<lparr> jd_weekly_reports :=
                                 (jd_weekly_reports data)(u \<mapsto> user_reports(week_key_of week_date \<mapsto> entry)),
                               jd_last_report_generated := Some now \<rparr>)))"

definition json_get_weekly_report :: "json_data \<Rightarrow> user_id \<Rightarrow> date \<Rightarrow> report option" where
  "json_get_weekly_report data u week_start =
     (case strptime week_start of
        None \<Rightarrow> None
      | Some week_date \<Rightarrow>
          (case jd_weekly_reports data u of
             None \<Rightarrow> None
           | Some user_reports \<Rightarrow> user_reports (week_key_of week_date)))"

definition json_save_failed_report_attempt ::
  "datetime \<Rightarrow> json_data \<Rightarrow> user_id \<Rightarrow> date \<Rightarrow> string \<Rightarrow> string \<Rightarrow> datetime option \<Rightarrow> json_data" where
  "json_save_failed_report_attempt now data u week_start error_message llm_model retry_scheduled =
     (let old = (case map_of (jd_failed_reports data) u of None \<Rightarrow> [] | Some fs \<Rightarrow> fs);
          failure_entry = \<lparr> fl_timestamp = now, fl_week_start = week_start, fl_error = error_message,
                            fl_model = llm_model, fl_retry_scheduled = retry_scheduled \<rparr>
      in data\<lparr> jd_failed_reports := AList.update u (old @ [failure_entry]) (jd_failed_reports data) \<rparr>)"

definition json_is_due :: "datetime \<Rightarrow> failure \<Rightarrow> bool" where
  "json_is_due now f = (case fl_retry_scheduled f of None \<Rightarrow> False | Some t \<Rightarrow> t \<le> now)"

definition json_user_retries :: "datetime \<Rightarrow> user_id \<Rightarrow> failure list \<Rightarrow> retry_info list" where
  "json_user_retries now u failures =
     map (\<lambda>f. \<lparr> ri_user_id = u, ri_week_start = fl_week_start f, ri_original_error = fl_error f,
                 ri_attempts = length (filter (\<lambda>g. fl_week_start g = fl_week_start f) failures) \<rparr>)
         (filter (json_is_due now) failures)"

definition json_get_pending_report_retries :: "datetime \<Rightarrow> json_data \<Rightarrow> retry_info list" where
  "json_get_pending_report_retries now data =
     concat (map (\<lambda>(u, failures). json_user_retries now u failures) (jd_failed_reports data))"

definition json_clear_failed_report_attempts :: "json_data \<Rightarrow> user_id \<Rightarrow> date \<Rightarrow> json_data" where
  "json_clear_failed_report_attempts data u week_start =
     (case map_of (jd_failed_reports data) u of
        None \<Rightarrow> data
      | Some failures \<Rightarrow>
          let kept = filter (\<lambda>f. fl_week_start f \<noteq> week_start) failures
          in if kept = []
             then data\<lparr> jd_failed_reports := AList.delete u (jd_failed_reports data) \<rparr>
             else data\<lparr> jd_failed_reports := AList.update u kept (jd_failed_reports data) \<rparr>)"

text \<open>
  \<open>get_today_sessions\<close> reads \<open>session["date"]\<close> of every entry of the user; an entry
  without a date raises \<open>KeyError\<close>, which is logged, and the answer is then that no
  session of today is recorded.
\<close>

definition undated :: "user_id \<Rightarrow> session \<Rightarrow> bool" where
  "undated u s = (ss_user_id s = u \<and> ss_date s = None)"

definition json_get_today_sessions :: "datetime \<Rightarrow> json_data \<Rightarrow> user_id \<Rightarrow> (string \<Rightarrow> session option)" where
  "json_get_today_sessions now data u =
     (if list_ex (undated u) (jd_responses data) then (\<lambda>_. None)
      else fold (\<lambda>s today_sessions.
                   if ss_user_id s = u \<and> ss_date s = Some (date_of now)
                   then today_sessions(ss_session_type s := Some s) else today_sessions)
                (jd_responses data) (\<lambda>_. None))"

section \<open>The SQLite backend\<close>

text \<open>SQLite's reading of the clock when the local clock reads \<open>now\<close>.\<close>

definition sql_clock :: "datetime \<Rightarrow> sqlite_db \<Rightarrow> datetime" where
  "sql_clock now db = now - db_utc_offset db"

text \<open>Dates are compared by SQLite as text; on \<open>YYYY-MM-DD\<close> that is this order.\<close>

definition date_text_le :: "date \<Rightarrow> date \<Rightarrow> bool" where
  "date_text_le a b =
     (year a < year b \<or> (year a = year b \<and>
        (month a < month b \<or> (month a = month b \<and> day a \<le> day b))))"

definition sql_in_week :: "user_id \<Rightarrow> date \<Rightarrow> date \<Rightarrow> session \<Rightarrow> bool" where
  "sql_in_week u lo hi s =
     (ss_user_id s = u \<and>
      (case ss_date s of None \<Rightarrow> False | Some d \<Rightarrow> date_text_le lo d \<and> date_text_le d hi))"

definition sql_get_week_sessions :: "sqlite_db \<Rightarrow> user_id \<Rightarrow> date \<Rightarrow> session list" where
  "sql_get_week_sessions db u week_start_date =
     (case strptime week_start_date of
        None \<Rightarrow> []
      | Some week_start \<Rightarrow>
          (case add_days week_start 6 of
             None \<Rightarrow> []
           | Some week_end \<Rightarrow>
               sort_key ss_timestamp (filter (sql_in_week u week_start_date week_end) (db_sessions db))))"

text \<open>
  Modelled from the spec: \<open>database/schema.sql\<close> is not among the sources. The Report
  Store is keyed by (user, week_key), so \<open>INSERT OR REPLACE\<close> removes the row that holds
  the same user and week key before it adds the new one; the column \<open>generated_at\<close> is
  filled by SQLite with the time of the insertion on its own clock.
\<close>

definition same_report_key :: "user_id \<Rightarrow> string \<Rightarrow> report_row \<Rightarrow> bool" where
  "same_report_key u k r = (rr_user_id r = u \<and> rr_week_key r = k)"

definition insert_or_replace :: "report_row \<Rightarrow> report_row list \<Rightarrow> report_row list" where
  "insert_or_replace r rows =
     filter (\<lambda>x. \<not> same_report_key (rr_user_id r) (rr_week_key r) x) rows @ [r]"

definition sql_save_weekly_report ::
  "datetime \<Rightarrow> sqlite_db \<Rightarrow> user_id \<Rightarrow> date \<Rightarrow> string \<Rightarrow> string \<Rightarrow> nat \<Rightarrow> string option
     \<Rightarrow> py_error + sqlite_db" where
  "sql_save_weekly_report now db u week_start report_content input_data data_days_count llm_model =
     (case strptime week_start of
        None \<Rightarrow> Inl ValueError
      | Some week_date \<Rightarrow>
          (case add_days week_date 6 of
             None \<Rightarrow> Inl OverflowError
           | Some week_end \<Rightarrow>
               let row = \<lparr> rr_user_id = u, rr_week_key = week_key_of week_date,
                           rr_report = make_report (sql_clock now db) week_date week_end
                                         report_content input_data data_days_count llm_model \<rparr>
               in Inr (db\<lparr> db_weekly_reports := insert_or_replace row (db_weekly_reports db) \<rparr>)))"

definition sql_get_weekly_report :: "sqlite_db \<Rightarrow> user_id \<Rightarrow> date \<Rightarrow> report option" where
  "sql_get_weekly_report db u week_start =
     (case strptime week_start of
        None \<Rightarrow> None
      | Some week_date \<Rightarrow>
          map_option rr_report
            (find (same_report_key u (week_key_of week_date)) (db_weekly_reports db)))"

text \<open>
  Modelled from the spec: the column \<open>created_at\<close> of \<open>failed_reports\<close> and of
  \<open>admin_notifications\<close> is not written by the code; a FailureRecord and a queue entry
  carry the time they were created, which SQLite fills in on its own clock.
\<close>

definition sql_save_failed_report_attempt ::
  "datetime \<Rightarrow> sqlite_db \<Rightarrow> user_id \<Rightarrow> date \<Rightarrow> string \<Rightarrow> string \<Rightarrow> datetime option \<Rightarrow> sqlite_db" where
  "sql_save_failed_report_attempt now db u week_start error_message llm_model retry_scheduled =
     db\<lparr> db_failed_reports := db_failed_reports db @
            [\<lparr> fr_user_id = u, fr_week_start = week_start, fr_error_message = error_message,
               fr_model = llm_model, fr_retry_scheduled = retry_scheduled,
               fr_created_at = sql_clock now db \<rparr>] \<rparr>"

definition sql_is_due :: "datetime \<Rightarrow> failed_row \<Rightarrow> bool" where
  "sql_is_due now r = (case fr_retry_scheduled r of None \<Rightarrow> False | Some t \<Rightarrow> t \<le> now)"

definition in_group :: "user_id \<times> date \<Rightarrow> failed_row \<Rightarrow> bool" where
  "in_group k r = (fr_user_id r = fst k \<and> fr_week_start r = snd k)"

text \<open>
  \<open>SELECT ... WHERE retry_scheduled IS NOT NULL AND retry_scheduled <= ? GROUP BY
  user_id, week_start\<close>: the rows are filtered first, then grouped, and \<open>COUNT(*)\<close> and
  \<open>MAX(error_message)\<close> range over the rows of the group that passed the filter.
\<close>

definition sql_get_pending_report_retries :: "datetime \<Rightarrow> sqlite_db \<Rightarrow> retry_info list" where
  "sql_get_pending_report_retries now db =
     (let due = filter (sql_is_due now) (db_failed_reports db);
          groups = remdups (map (\<lambda>r. (fr_user_id r, fr_week_start r)) due)
      in map (\<lambda>k. \<lparr> ri_user_id = fst k, ri_week_start = snd k,
                     ri_original_error = foldr max (map fr_error_message (filter (in_group k) due)) [],
                     ri_attempts = length (filter (in_group k) due) \<rparr>) groups)"

definition sql_clear_failed_report_attempts :: "sqlite_db \<Rightarrow> user_id \<Rightarrow> date \<Rightarrow> sqlite_db" where
  "sql_clear_failed_report_attempts db u week_start =
     db\<lparr> db_failed_reports := filter (\<lambda>r. \<not> in_group (u, week_start) r) (db_failed_reports db) \<rparr>"

subsection \<open>The admin notification table\<close>

record issue =
  is_timestamp :: datetime
  is_type :: string
  is_user_id :: "user_id option"
  is_details :: string

record admin_notifications =
  daily_notifications :: "date \<rightharpoonup> bool"
  pending_issues :: "issue list"

definition is_summary :: "admin_row \<Rightarrow> bool" where
  "is_summary r = (an_notification_type r = ''daily_summary'')"

definition issue_of :: "admin_row \<Rightarrow> issue" where
  "issue_of r = \<lparr> is_timestamp = an_created_at r, is_type = an_notification_type r,
                  is_user_id = an_user_id r, is_details = an_message r \<rparr>"

definition sql_get_admin_notifications :: "datetime \<Rightarrow> sqlite_db \<Rightarrow> admin_notifications" where
  "sql_get_admin_notifications now db =
     (let today = date_of now;
          today_sent = list_ex (\<lambda>r. date_of (an_created_at r) = today \<and> is_summary r)
                         (db_admin_notifications db);
          recent = filter (\<lambda>r. \<not> is_summary r
                                \<and> date_ordinal (sql_clock now db) - 1 \<le> date_ordinal (an_created_at r))
                     (db_admin_notifications db)
      in \<lparr> daily_notifications = [today \<mapsto> today_sent],
           pending_issues = map issue_of (rev (sort_key an_created_at recent)) \<rparr>)"

definition sql_add_admin_notification ::
  "datetime \<Rightarrow> sqlite_db \<Rightarrow> string \<Rightarrow> user_id \<Rightarrow> string \<Rightarrow> sqlite_db" where
  "sql_add_admin_notification now db notification_type u message =
     db\<lparr> db_admin_notifications := db_admin_notifications db @
            [\<lparr> an_notification_type = notification_type, an_user_id = Some u,
               an_message = message, an_created_at = sql_clock now db \<rparr>] \<rparr>"

definition sql_mark_admin_notified_today :: "datetime \<Rightarrow> sqlite_db \<Rightarrow> nat \<Rightarrow> sqlite_db" where
  "sql_mark_admin_notified_today now db issues_count =
     (let summary = \<lparr> an_notification_type = ''daily_summary'', an_user_id = None,
                      an_message = ''Daily summary sent with '' @ str_nat issues_count @ '' issues'',
                      an_created_at = sql_clock now db \<rparr>
      in db\<lparr> db_admin_notifications :=
               filter (\<lambda>r. \<not> (\<not> is_summary r
                               \<and> date_ordinal (an_created_at r) < date_ordinal (sql_clock now db) - 1))
                 (db_admin_notifications db @ [summary]) \<rparr>)"

definition sql_clear_pending_admin_issues :: "sqlite_db \<Rightarrow> sqlite_db" where
  "sql_clear_pending_admin_issues db =
     db\<lparr> db_admin_notifications := filter is_summary (db_admin_notifications db) \<rparr>"

section \<open>The facade \<open>DataHandler\<close>\<close>

definition get_week_sessions :: "data_handler \<Rightarrow> user_id \<Rightarrow> date \<Rightarrow> session list" where
  "get_week_sessions dh u week_start =
     (case dh of JSONBackend d \<Rightarrow> json_get_week_sessions d u week_start
               | SQLiteBackend db \<Rightarrow> sql_get_week_sessions db u week_start)"

definition save_weekly_report ::
  "datetime \<Rightarrow> data_handler \<Rightarrow> user_id \<Rightarrow> date \<Rightarrow> string \<Rightarrow> string \<Rightarrow> nat \<Rightarrow> string option
     \<Rightarrow> py_error + data_handler" where
  "save_weekly_report now dh u week_start report_content input_data data_days_count llm_model =
     (case dh of
        JSONBackend d \<Rightarrow>
          map_sum id JSONBackend
            (json_save_weekly_report now d u week_start report_content input_data data_days_count llm_model)
      | SQLiteBackend db \<Rightarrow>
          map_sum id SQLiteBackend
            (sql_save_weekly_report now db u week_start report_content input_data data_days_count llm_model))"

definition get_weekly_report :: "data_handler \<Rightarrow> user_id \<Rightarrow> date \<Rightarrow> report option" where
  "get_weekly_report dh u week_start =
     (case dh of JSONBackend d \<Rightarrow> json_get_weekly_report d u week_start
               | SQLiteBackend db \<Rightarrow> sql_get_weekly_report db u week_start)"

definition save_failed_report_attempt ::
  "datetime \<Rightarrow> data_handler \<Rightarrow> user_id \<Rightarrow> date \<Rightarrow> string \<Rightarrow> string \<Rightarrow> datetime option \<Rightarrow> data_handler" where
  "save_failed_report_attempt now dh u week_start error_message llm_model retry_scheduled =
     (case dh of
        JSONBackend d \<Rightarrow>
          JSONBackend (json_save_failed_report_attempt now d u week_start error_message llm_model retry_scheduled)
      | SQLiteBackend db \<Rightarrow>
          SQLiteBackend (sql_save_failed_report_attempt now db u week_start error_message llm_model retry_scheduled))"

definition get_pending_report_retries :: "datetime \<Rightarrow> data_handler \<Rightarrow> retry_info list" where
  "get_pending_report_retries now dh =
     (case dh of JSONBackend d \<Rightarrow> json_get_pending_report_retries now d
               | SQLiteBackend db \<Rightarrow> sql_get_pending_report_retries now db)"

definition clear_failed_report_attempts :: "data_handler \<Rightarrow> user_id \<Rightarrow> date \<Rightarrow> data_handler" where
  "clear_failed_report_attempts dh u week_start =
     (case dh of JSONBackend d \<Rightarrow> JSONBackend (json_clear_failed_report_attempts d u week_start)
               | SQLiteBackend db \<Rightarrow> SQLiteBackend (sql_clear_failed_report_attempts db u week_start))"

text \<open>
  The facade passes two arguments, \<open>(user_id, user_timezone)\<close>, to the backend's
  \<open>get_today_sessions\<close>; the SQLite backend's method takes one, so the call raises
  \<open>TypeError\<close> there.
\<close>

definition get_today_sessions ::
  "datetime \<Rightarrow> data_handler \<Rightarrow> user_id \<Rightarrow> py_error + (string \<Rightarrow> session option)" where
  "get_today_sessions now dh u =
     (case dh of JSONBackend d \<Rightarrow> Inr (json_get_today_sessions now d u)
               | SQLiteBackend db \<Rightarrow> Inl TypeError)"

text \<open>
  The admin methods exist on the SQLite backend only; on the JSON backend the attribute
  lookup of the facade raises \<open>AttributeError\<close>.
\<close>

definition get_admin_notifications :: "datetime \<Rightarrow> data_handler \<Rightarrow> py_error + admin_notifications" where
  "get_admin_notifications now dh =
     (case dh of JSONBackend d \<Rightarrow> Inl AttributeError
               | SQLiteBackend db \<Rightarrow> Inr (sql_get_admin_notifications now db))"

definition add_admin_notification ::
  "datetime \<Rightarrow> data_handler \<Rightarrow> string \<Rightarrow> user_id \<Rightarrow> string \<Rightarrow> py_error + data_handler" where
  "add_admin_notification now dh notification_type u message =
     (case dh of JSONBackend d \<Rightarrow> Inl AttributeError
               | SQLiteBackend db \<Rightarrow> Inr (SQLiteBackend (sql_add_admin_notification now db notification_type u message)))"

definition mark_admin_notified_today :: "datetime \<Rightarrow> data_handler \<Rightarrow> nat \<Rightarrow> py_error + data_handler" where
  "mark_admin_notified_today now dh issues_count =
     (case dh of JSONBackend d \<Rightarrow> Inl AttributeError
               | SQLiteBackend db \<Rightarrow> Inr (SQLiteBackend (sql_mark_admin_notified_today now db issues_count)))"

definition clear_pending_admin_issues :: "data_handler \<Rightarrow> py_error + data_handler" where
  "clear_pending_admin_issues dh =
     (case dh of JSONBackend d \<Rightarrow> Inl AttributeError
               | SQLiteBackend db \<Rightarrow> Inr (SQLiteBackend (sql_clear_pending_admin_issues db)))"

section \<open>The narrative generator (\<open>ai_service\<close>)\<close>

text \<open>
  \<open>validate_data_sufficiency\<close> collects the \<open>date\<close> values of the sessions that have
  one into a set and counts them.
\<close>

definition unique_dates :: "session list \<Rightarrow> date list" where
  "unique_dates sessions = remdups (List.map_filter ss_date sessions)"

definition validate_data_sufficiency :: "session list \<Rightarrow> bool \<times> nat \<times> string" where
  "validate_data_sufficiency sessions =
     (if sessions = [] then (False, 0, ''No data available for the past week.'')
      else
        let days_count = length (unique_dates sessions)
        in if days_count < 3
           then (False, days_count,
                 ''Insufficient data: only '' @ str_nat days_count @ '' day''
                   @ (if days_count \<noteq> 1 then ''s'' else [])
                   @ '' with entries. Need at least 3 days.'')
           else (True, days_count,
                 ''Sufficient data: '' @ str_nat days_count @ '' days with entries.''))"

text \<open>
  What the request to the narrative service comes back with: the content of the first
  choice (which may be absent), or one of the exceptions that \<open>generate_report\<close> tells
  apart, with its text.
\<close>

datatype api_outcome =
  Completion "string option"
  | APITimeoutError string
  | APIError string
  | OtherException string

record metadata =
  md_model_used :: string
  md_error_type :: "string option"
  md_report_length :: "nat option"

definition generate_report :: "string \<Rightarrow> api_outcome \<Rightarrow> bool \<times> string \<times> metadata" where
  "generate_report model outcome =
     (case outcome of
        Completion report_content \<Rightarrow>
          (if (case report_content of None \<Rightarrow> True | Some c \<Rightarrow> c = [] \<or> length (strip c) < 50)
           then (False, ''Generated report was too short or empty.'',
                 \<lparr> md_model_used = model, md_error_type = Some ''insufficient_content'',
                   md_report_length = None \<rparr>)
           else (True, strip (the report_content),
                 \<lparr> md_model_used = model, md_error_type = None,
                   md_report_length = Some (length (the report_content)) \<rparr>))
      | APITimeoutError e \<Rightarrow>
          (False, ''LLM request timeout: '' @ e,
           \<lparr> md_model_used = model, md_error_type = Some ''timeout'', md_report_length = None \<rparr>)
      | APIError e \<Rightarrow>
          (False, ''LLM API error: '' @ e,
           \<lparr> md_model_used = model, md_error_type = Some ''api_error'', md_report_length = None \<rparr>)
      | OtherException e \<Rightarrow>
          (False, ''Failed to generate AI report: '' @ e,
           \<lparr> md_model_used = model, md_error_type = Some ''unknown'', md_report_length = None \<rparr>))"

section \<open>The state of the running bot\<close>

text \<open>
  A message handed to the chat transport is recorded by what it says, not by its wording:
  the notice of a failed generation with the retry date, the notice of a successful retry,
  the notice that the retries are exhausted, and the admin summary with the issues it lists.
  Sending is taken to succeed.
\<close>

datatype outbound =
  FailureNotice user_id date datetime
  | RetrySuccessNotice user_id date
  | MaxRetriesNotice user_id date
  | AdminSummary "issue list"

text \<open>
  \<open>st_bot_application\<close> tells whether \<open>set_bot_application\<close> has been called.
  \<open>st_sent\<close> lists the messages sent so far, \<open>st_requests\<close> counts the requests made to
  the narrative service, and \<open>st_generate_calls\<close> lists the invocations of
  \<open>generate_weekly_report\<close> with their arguments; the last two are a trace kept for the
  statements below and change nothing in what the functions compute.
\<close>

record bot_state =
  st_data_handler :: data_handler
  st_bot_application :: bool
  st_sent :: "outbound list"
  st_requests :: nat
  st_generate_calls :: "(user_id \<times> date \<times> bool) list"

text \<open>
  What lies outside the bot: the outcome of the n-th request to the narrative service, the
  text \<open>format_session_data\<close> renders for a list of sessions, and the configured model.
\<close>

record world =
  w_service :: "nat \<Rightarrow> api_outcome"
  w_format_session_data :: "session list \<Rightarrow> string"
  w_model :: string

section \<open>The admin escalation queue (\<open>admin_notifier\<close>)\<close>

definition should_notify_admin_today :: "datetime \<Rightarrow> data_handler \<Rightarrow> bool" where
  "should_notify_admin_today now dh =
     (case get_admin_notifications now dh of
        Inl e \<Rightarrow> False
      | Inr notifications \<Rightarrow>
          \<not> (case daily_notifications notifications (date_of now) of
                None \<Rightarrow> False | Some sent \<Rightarrow> sent))"

definition add_issue_for_notification ::
  "datetime \<Rightarrow> data_handler \<Rightarrow> string \<Rightarrow> user_id \<Rightarrow> string \<Rightarrow> data_handler" where
  "add_issue_for_notification now dh issue_type u details =
     (case add_admin_notification now dh issue_type u details of
        Inl e \<Rightarrow> dh | Inr dh' \<Rightarrow> dh')"

definition send_daily_admin_summary :: "datetime \<Rightarrow> bot_state \<Rightarrow> bool \<times> bot_state" where
  "send_daily_admin_summary now st =
     (if \<not> should_notify_admin_today now (st_data_handler st) then (False, st)
      else
        (case get_admin_notifications now (st_data_handler st) of
           Inl e \<Rightarrow> (False, st)
         | Inr notifications \<Rightarrow>
             let pending = pending_issues notifications
             in if pending = [] then (False, st)
                else
                  let st1 = st\<lparr> st_sent := st_sent st @ [AdminSummary pending] \<rparr>
                  in (case mark_admin_notified_today now (st_data_handler st1) (length pending) of
                        Inl e \<Rightarrow> (False, st1)
                      | Inr dh1 \<Rightarrow>
                          (case clear_pending_admin_issues dh1 of
                             Inl e \<Rightarrow> (False, st1\<lparr> st_data_handler := dh1 \<rparr>)
                           | Inr dh2 \<Rightarrow> (True, st1\<lparr> st_data_handler := dh2 \<rparr>)))))"

definition pending_issues_count :: "datetime \<Rightarrow> data_handler \<Rightarrow> nat" where
  "pending_issues_count now dh =
     (case get_admin_notifications now dh of
        Inl e \<Rightarrow> 0 | Inr notifications \<Rightarrow> length (pending_issues notifications))"

definition notify_llm_failure :: "datetime \<Rightarrow> bot_state \<Rightarrow> user_id \<Rightarrow> string \<Rightarrow> string \<Rightarrow> bot_state" where
  "notify_llm_failure now st u error_message model_name =
     (let details = ''Model: '' @ model_name @ '', Error: '' @ error_message;
          st1 = st\<lparr> st_data_handler :=
                      add_issue_for_notification now (st_data_handler st) ''llm_failure'' u details \<rparr>
      in if should_notify_admin_today now (st_data_handler st1)
            \<and> 5 \<le> pending_issues_count now (st_data_handler st1)
         then snd (send_daily_admin_summary now st1)
         else st1)"

section \<open>The report lifecycle (\<open>report_manager\<close>)\<close>

definition notify_user_of_failure :: "bot_state \<Rightarrow> user_id \<Rightarrow> date \<Rightarrow> datetime \<Rightarrow> bot_state" where
  "notify_user_of_failure st u week_start retry_date =
     (if \<not> st_bot_application st then st
      else st\<lparr> st_sent := st_sent st @ [FailureNotice u week_start retry_date] \<rparr>)"

definition notify_user_retry_success :: "bot_state \<Rightarrow> user_id \<Rightarrow> date \<Rightarrow> bot_state" where
  "notify_user_retry_success st u week_start =
     (if \<not> st_bot_application st then st
      else st\<lparr> st_sent := st_sent st @ [RetrySuccessNotice u week_start] \<rparr>)"

definition notify_user_max_retries :: "bot_state \<Rightarrow> user_id \<Rightarrow> date \<Rightarrow> bot_state" where
  "notify_user_max_retries st u week_start =
     (if \<not> st_bot_application st then st
      else st\<lparr> st_sent := st_sent st @ [MaxRetriesNotice u week_start] \<rparr>)"

text \<open>The clock is taken to read at least two days before the end of the year 9999.\<close>

definition handle_report_generation_failure ::
  "datetime \<Rightarrow> bot_state \<Rightarrow> user_id \<Rightarrow> date \<Rightarrow> string \<Rightarrow> string \<Rightarrow> string \<Rightarrow> bot_state" where
  "handle_report_generation_failure now st u week_start error_message model_name error_type =
     (let retry_date = now + timedelta_days 2;
          st1 = st\<lparr> st_data_handler :=
                      save_failed_report_attempt now (st_data_handler st) u week_start
                        error_message model_name (Some retry_date) \<rparr>;
          st2 = notify_user_of_failure st1 u week_start retry_date
      in if st_bot_application st2
         then notify_llm_failure now st2 u (error_type @ '': '' @ error_message) model_name
         else st2)"

definition error_text :: "py_error \<Rightarrow> string" where
  "error_text e =
     (case e of ValueError \<Rightarrow> ''ValueError'' | OverflowError \<Rightarrow> ''OverflowError''
              | TypeError \<Rightarrow> ''TypeError'' | AttributeError \<Rightarrow> ''AttributeError'')"

definition generate_weekly_report ::
  "world \<Rightarrow> datetime \<Rightarrow> bot_state \<Rightarrow> user_id \<Rightarrow> date \<Rightarrow> bool \<Rightarrow> (bool \<times> string) \<times> bot_state" where
  "generate_weekly_report w now st u week_start is_retry =
     (let st0 = st\<lparr> st_generate_calls := st_generate_calls st @ [(u, week_start, is_retry)] \<rparr>;
          sessions = get_week_sessions (st_data_handler st0) u week_start;
          v = validate_data_sufficiency sessions
      in if \<not> fst v then ((False, snd (snd v)), st0)
         else
           let formatted_data = w_format_session_data w sessions;
               g = generate_report (w_model w) (w_service w (st_requests st0));
               report_content = fst (snd g);
               metadata = snd (snd g);
               st1 = st0\<lparr> st_requests := st_requests st0 + 1 \<rparr>
           in if \<not> fst g
              then (if \<not> is_retry
                    then ((False, report_content),
                          handle_report_generation_failure now st1 u week_start report_content
                            (md_model_used metadata)
                            (case md_error_type metadata of None \<Rightarrow> ''unknown'' | Some t \<Rightarrow> t))
                    else ((False, report_content), st1))
              else
                (case save_weekly_report now (st_data_handler st1) u week_start report_content
                        formatted_data (fst (snd v)) (Some (md_model_used metadata)) of
                   Inl e \<Rightarrow>
                     ((False, ''Report generated but failed to save: '' @ error_text e), st1)
                 | Inr dh' \<Rightarrow>
                     ((True, report_content),
                      st1\<lparr> st_data_handler := clear_failed_report_attempts dh' u week_start \<rparr>)))"

definition retry_one :: "world \<Rightarrow> datetime \<Rightarrow> retry_info \<Rightarrow> bot_state \<Rightarrow> bot_state" where
  "retry_one w now retry_info st =
     (let u = ri_user_id retry_info;
          week_start = ri_week_start retry_info;
          attempts = ri_attempts retry_info
      in if 3 \<le> attempts then st
         else
           let r = generate_weekly_report w now st u week_start True
           in if fst (fst r) then notify_user_retry_success (snd r) u week_start
              else if 2 \<le> attempts then notify_user_max_retries (snd r) u week_start
              else snd r)"

text \<open>The list of pending retries is read once, before the loop.\<close>

definition process_pending_retries :: "world \<Rightarrow> datetime \<Rightarrow> bot_state \<Rightarrow> bot_state" where
  "process_pending_retries w now st =
     fold (retry_one w now) (get_pending_report_retries now (st_data_handler st)) st"

definition get_previous_week_start :: "datetime \<Rightarrow> date option" where
  "get_previous_week_start now =
     (case add_days (date_of now) (- weekday (date_of now)) of
        None \<Rightarrow> None
      | Some monday \<Rightarrow> add_days monday (- 7))"

definition should_generate_report :: "datetime \<Rightarrow> data_handler \<Rightarrow> user_id \<Rightarrow> bool \<times> string \<times> date option" where
  "should_generate_report now dh u =
     (case get_previous_week_start now of
        None \<Rightarrow> (False, ''Error: OverflowError'', None)
      | Some previous_week_start \<Rightarrow>
          (if get_weekly_report dh u previous_week_start \<noteq> None
           then (False, ''Report already exists for previous week'', Some previous_week_start)
           else
             let v = validate_data_sufficiency (get_week_sessions dh u previous_week_start)
             in if \<not> fst v then (False, snd (snd v), Some previous_week_start)
                else (True, ''Ready to generate report ('' @ str_nat (fst (snd v)) @ '' days of data)'',
                      Some previous_week_start)))"

section \<open>Reminders (\<open>reminder_manager\<close>)\<close>

text \<open>
  The reminder that is built: which greeting it carries and which of the two start buttons
  it shows. The time zone database is outside the bot: \<open>tz_known\<close> tells the names
  \<open>pytz.timezone\<close> accepts, \<open>tz_hour\<close> the hour of the day in a zone.
\<close>

record reminder_message =
  rm_greeting :: string
  rm_show_morning :: bool
  rm_show_evening :: bool

record tz_database =
  tz_known :: "string \<Rightarrow> bool"
  tz_hour :: "string \<Rightarrow> nat"

record reminder_state =
  rs_data_handler :: data_handler
  rs_reminder_callback :: bool
  rs_delivered :: "(user_id \<times> reminder_message) list"

definition stored_preferences :: "data_handler \<Rightarrow> user_id \<Rightarrow> (string \<times> string) list" where
  "stored_preferences dh u =
     (case (case dh of JSONBackend d \<Rightarrow> jd_user_preferences d u
                     | SQLiteBackend db \<Rightarrow> db_user_preferences db u) of
        None \<Rightarrow> [] | Some p \<Rightarrow> p)"

definition user_timezone :: "data_handler \<Rightarrow> user_id \<Rightarrow> string" where
  "user_timezone dh u =
     (case map_of (stored_preferences dh u) ''timezone'' of
        None \<Rightarrow> ''Europe/Paris'' | Some tz \<Rightarrow> tz)"

definition create_reminder_message ::
  "string \<Rightarrow> (string \<Rightarrow> session option) \<Rightarrow> nat \<Rightarrow> reminder_message" where
  "create_reminder_message reminder_type today_sessions hour =
     (if reminder_type = ''morning''
      then \<lparr> rm_greeting = ''morning'',
             rm_show_morning = (today_sessions ''morning'' = None),
             rm_show_evening = (18 \<le> hour \<and> today_sessions ''evening'' = None) \<rparr>
      else \<lparr> rm_greeting = ''evening'',
             rm_show_morning = False,
             rm_show_evening = (today_sessions ''evening'' = None) \<rparr>)"

text \<open>Every exception inside \<open>_send_reminder\<close> is logged and the job ends.\<close>

definition send_reminder ::
  "tz_database \<Rightarrow> datetime \<Rightarrow> reminder_state \<Rightarrow> user_id \<Rightarrow> string \<Rightarrow> reminder_state" where
  "send_reminder tz now st u reminder_type =
     (case get_today_sessions now (rs_data_handler st) u of
        Inl e \<Rightarrow> st
      | Inr today_sessions \<Rightarrow>
          (if today_sessions reminder_type \<noteq> None then st
           else
             let user_tz = user_timezone (rs_data_handler st) u
             in if \<not> tz_known tz user_tz then st
                else
                  let message = create_reminder_message reminder_type today_sessions (tz_hour tz user_tz)
                  in if rs_reminder_callback st
                     then st\<lparr> rs_delivered := rs_delivered st @ [(u, message)] \<rparr>
                     else st))"

section \<open>Views and sample stores used in the statements\<close>

text \<open>The failure entries the JSON file holds for a user (none where the user has no key).\<close>

definition json_failures :: "json_data \<Rightarrow> user_id \<Rightarrow> failure list" where
  "json_failures d u = (case map_of (jd_failed_reports d) u of None \<Rightarrow> [] | Some fs \<Rightarrow> fs)"

definition initial_data :: json_data where
  "initial_data = \<lparr> jd_responses = [], jd_user_preferences = Map.empty,
                     jd_weekly_reports = Map.empty, jd_failed_reports = [],
                     jd_last_report_generated = None \<rparr>"

definition empty_db :: sqlite_db where
  "empty_db = \<lparr> db_sessions = [], db_user_preferences = Map.empty, db_weekly_reports = [],
                 db_failed_reports = [], db_admin_notifications = [], db_utc_offset = 0 \<rparr>"

definition sample_failure :: "date \<Rightarrow> datetime option \<Rightarrow> failure" where
  "sample_failure w r = \<lparr> fl_timestamp = 0, fl_week_start = w, fl_error = ''timeout'',
                          fl_model = ''m'', fl_retry_scheduled = r \<rparr>"

definition sample_row :: "user_id \<Rightarrow> date \<Rightarrow> datetime option \<Rightarrow> failed_row" where
  "sample_row u w r = \<lparr> fr_user_id = u, fr_week_start = w, fr_error_message = ''timeout'',
                        fr_model = ''m'', fr_retry_scheduled = r, fr_created_at = 0 \<rparr>"

definition json_ledger :: "(user_id \<times> failure list) list \<Rightarrow> json_data" where
  "json_ledger l = initial_data\<lparr> jd_failed_reports := l \<rparr>"

definition sql_ledger :: "failed_row list \<Rightarrow> sqlite_db" where
  "sql_ledger l = empty_db\<lparr> db_failed_reports := l \<rparr>"

text \<open>The number of distinct calendar dates that carry at least one session.\<close>

definition days_with_entries :: "session list \<Rightarrow> nat" where
  "days_with_entries sessions = card (set (List.map_filter ss_date sessions))"

definition sample_session :: "user_id \<Rightarrow> string \<Rightarrow> date \<Rightarrow> datetime \<Rightarrow> session" where
  "sample_session u session_type d t =
     \<lparr> ss_user_id = u, ss_session_type = session_type, ss_timestamp = t,
       ss_date = Some d, ss_responses = [] \<rparr>"

text \<open>User 7 checked in on Monday, Wednesday (twice) and Friday of the week of 2025-01-06.\<close>

definition sample_week :: "session list" where
  "sample_week =
     [sample_session 7 ''morning'' (Date 2025 1 6) 1,
      sample_session 7 ''morning'' (Date 2025 1 8) 2,
      sample_session 7 ''evening'' (Date 2025 1 8) 3,
      sample_session 7 ''evening'' (Date 2025 1 10) 4]"

text \<open>Noon of Monday 2025-01-13.\<close>

definition sample_now :: datetime where
  "sample_now = at_midnight (Date 2025 1 13) + 43200000000"

text \<open>
  The retry times of the failure records stored for a user and a week, in the order in
  which they were stored.
\<close>

definition failure_retries :: "data_handler \<Rightarrow> user_id \<Rightarrow> date \<Rightarrow> datetime option list" where
  "failure_retries dh u w =
     (case dh of
        JSONBackend d \<Rightarrow> map fl_retry_scheduled (filter (\<lambda>f. fl_week_start f = w) (json_failures d u))
      | SQLiteBackend db \<Rightarrow> map fr_retry_scheduled (filter (in_group (u, w)) (db_failed_reports db)))"

definition sample_world :: "api_outcome \<Rightarrow> world" where
  "sample_world outcome =
     \<lparr> w_service = (\<lambda>n. outcome), w_format_session_data = (\<lambda>sessions. ''formatted''),
       w_model = ''openai/gpt-5'' \<rparr>"

definition sample_state :: "data_handler \<Rightarrow> bot_state" where
  "sample_state dh =
     \<lparr> st_data_handler = dh, st_bot_application = True, st_sent = [], st_requests = 0,
       st_generate_calls = [] \<rparr>"

text \<open>The stored sessions, and whether one of a user, of today and of a type is among them.\<close>

definition sessions_of :: "data_handler \<Rightarrow> session list" where
  "sessions_of dh = (case dh of JSONBackend d \<Rightarrow> jd_responses d | SQLiteBackend db \<Rightarrow> db_sessions db)"

definition is_todays :: "datetime \<Rightarrow> user_id \<Rightarrow> string \<Rightarrow> session \<Rightarrow> bool" where
  "is_todays now u session_type s =
     (ss_user_id s = u \<and> ss_date s = Some (date_of now) \<and> ss_session_type s = session_type)"

definition recorded_today :: "datetime \<Rightarrow> data_handler \<Rightarrow> user_id \<Rightarrow> string \<Rightarrow> bool" where
  "recorded_today now dh u session_type = list_ex (is_todays now u session_type) (sessions_of dh)"

text \<open>Whether every stored entry of a user carries a date, as those \<open>save_session\<close> writes do.\<close>

definition entries_dated :: "user_id \<Rightarrow> data_handler \<Rightarrow> bool" where
  "entries_dated u dh = (\<not> list_ex (undated u) (sessions_of dh))"




text \<open>
  Whether a flush of the admin queue is recorded for the day of \<open>now\<close>, the entries that
  are pending, and the events that touch the queue: an issue is added, a generation
  failure is reported (which may flush at once), the daily job runs.
\<close>

definition flush_recorded :: "datetime \<Rightarrow> data_handler \<Rightarrow> bool" where
  "flush_recorded now dh =
     (case dh of
        JSONBackend d \<Rightarrow> False
      | SQLiteBackend db \<Rightarrow>
          list_ex (\<lambda>r. date_of (an_created_at r) = date_of now \<and> is_summary r)
            (db_admin_notifications db))"

definition pending_now :: "datetime \<Rightarrow> data_handler \<Rightarrow> issue list" where
  "pending_now now dh =
     (case get_admin_notifications now dh of
        Inl e \<Rightarrow> [] | Inr notifications \<Rightarrow> pending_issues notifications)"

definition is_admin_summary :: "outbound \<Rightarrow> bool" where
  "is_admin_summary m = (case m of AdminSummary p \<Rightarrow> True | _ \<Rightarrow> False)"

datatype admin_event =
  AddIssue string user_id string
  | LLMFailure user_id string string
  | DailySummary

fun admin_step :: "datetime \<times> admin_event \<Rightarrow> bot_state \<Rightarrow> bot_state" where
  "admin_step (now, AddIssue issue_type u details) st =
     st\<lparr> st_data_handler := add_issue_for_notification now (st_data_handler st) issue_type u details \<rparr>"
| "admin_step (now, LLMFailure u error_message model_name) st =
     notify_llm_failure now st u error_message model_name"
| "admin_step (now, DailySummary) st = snd (send_daily_admin_summary now st)"

definition same_day :: "datetime \<Rightarrow> datetime \<times> admin_event \<Rightarrow> bool" where
  "same_day now ev = (date_of (fst ev) = date_of now)"

text \<open>The process runs in UTC: the local clock and SQLite's clock read the same.\<close>

definition clocks_agree :: "data_handler \<Rightarrow> bool" where
  "clocks_agree dh = (case dh of JSONBackend d \<Rightarrow> True | SQLiteBackend db \<Rightarrow> db_utc_offset db = 0)"

text \<open>
  A process five hours west of Greenwich at 20:00 and at 21:00 local time of 2025-01-13
  (01:00 and 02:00 UTC of 2025-01-14), with one failure pending in the queue.
\<close>

definition west_offset :: int where
  "west_offset = - 18000000000"

definition sample_evening :: datetime where
  "sample_evening = at_midnight (Date 2025 1 13) + 72000000000"

definition sample_later_evening :: datetime where
  "sample_later_evening = at_midnight (Date 2025 1 13) + 75600000000"

definition sample_issue_row :: "datetime \<Rightarrow> admin_row" where
  "sample_issue_row t =
     \<lparr> an_notification_type = ''llm_failure'', an_user_id = Some 7,
       an_message = ''Model: m, Error: timeout'', an_created_at = t \<rparr>"

definition sample_west_state :: bot_state where
  "sample_west_state =
     sample_state (SQLiteBackend (empty_db\<lparr>
       db_admin_notifications := [sample_issue_row (sample_evening - west_offset)],
       db_utc_offset := west_offset \<rparr>))"

text \<open>The same process with four failures pending in the queue.\<close>

definition sample_west_queue :: bot_state where
  "sample_west_queue =
     sample_state (SQLiteBackend (empty_db\<lparr>
       db_admin_notifications := replicate 4 (sample_issue_row (sample_evening - west_offset)),
       db_utc_offset := west_offset \<rparr>))"

text \<open>The clock that stamps a stored report: Python's on the JSON backend, SQLite's otherwise.\<close>

definition store_clock :: "datetime \<Rightarrow> data_handler \<Rightarrow> datetime" where
  "store_clock now dh = (case dh of JSONBackend d \<Rightarrow> now | SQLiteBackend db \<Rightarrow> sql_clock now db)"

text \<open>The number of report records the store holds for a user under a week key.\<close>

definition report_count :: "data_handler \<Rightarrow> user_id \<Rightarrow> string \<Rightarrow> nat" where
  "report_count dh u k =
     (case dh of
        JSONBackend d \<Rightarrow>
          (case jd_weekly_reports d u of
             None \<Rightarrow> 0
           | Some user_reports \<Rightarrow> (case user_reports k of None \<Rightarrow> 0 | Some r \<Rightarrow> 1))
      | SQLiteBackend db \<Rightarrow> length (filter (same_report_key u k) (db_weekly_reports db)))"

text \<open>A JSON store with the sample week and two earlier failure records for it.\<close>

definition sample_failed_store :: data_handler where
  "sample_failed_store =
     JSONBackend (initial_data\<lparr> jd_responses := sample_week,
       jd_failed_reports := [(7, [sample_failure (Date 2025 1 6) (Some 5),
                                  sample_failure (Date 2025 1 6) (Some 6)])] \<rparr>)"

definition sample_report_text :: string where
  "sample_report_text =
     ''Your week showed steady energy, a calm mood and clear intentions on every recorded day.''"

text \<open>
  The messages that went to users (all but the admin summaries), the queue entry that
  \<open>notify_llm_failure\<close> writes for a failure, and whether an entry has reached the admin:
  it is pending in the queue, or it was listed in a summary that was sent.
\<close>

definition user_messages :: "outbound list \<Rightarrow> outbound list" where
  "user_messages sent = filter (\<lambda>m. \<not> is_admin_summary m) sent"

definition llm_issue :: "datetime \<Rightarrow> user_id \<Rightarrow> string \<Rightarrow> string \<Rightarrow> string \<Rightarrow> issue" where
  "llm_issue now u model_name error_type error_message =
     \<lparr> is_timestamp = now, is_type = ''llm_failure'', is_user_id = Some u,
       is_details = ''Model: '' @ model_name @ '', Error: '' @ error_type @ '': '' @ error_message \<rparr>"

definition in_summary :: "issue \<Rightarrow> outbound \<Rightarrow> bool" where
  "in_summary i m = (case m of AdminSummary p \<Rightarrow> i \<in> set p | _ \<Rightarrow> False)"

definition forwarded :: "datetime \<Rightarrow> bot_state \<Rightarrow> issue \<Rightarrow> bool" where
  "forwarded now st i =
     (i \<in> set (pending_now now (st_data_handler st)) \<or> list_ex (in_summary i) (st_sent st))"

definition error_type_of :: "metadata \<Rightarrow> string" where
  "error_type_of metadata = (case md_error_type metadata of None \<Rightarrow> ''unknown'' | Some t \<Rightarrow> t)"

definition sample_sql_store :: data_handler where
  "sample_sql_store = SQLiteBackend (empty_db\<lparr> db_sessions := sample_week \<rparr>)"

text \<open>
  The number of failure records of a user and week that are due, the invocations of
  \<open>generate_weekly_report\<close> for a user and week, and the notices sent to a user about a
  week. A Python dictionary holds each key once.
\<close>

definition due_count :: "datetime \<Rightarrow> data_handler \<Rightarrow> user_id \<Rightarrow> date \<Rightarrow> nat" where
  "due_count now dh u w =
     (case dh of
        JSONBackend d \<Rightarrow>
          length (filter (\<lambda>f. fl_week_start f = w \<and> json_is_due now f) (json_failures d u))
      | SQLiteBackend db \<Rightarrow>
          length (filter (\<lambda>r. in_group (u, w) r \<and> sql_is_due now r) (db_failed_reports db)))"

definition keys_once :: "data_handler \<Rightarrow> bool" where
  "keys_once dh =
     (case dh of JSONBackend d \<Rightarrow> distinct (map fst (jd_failed_reports d))
               | SQLiteBackend db \<Rightarrow> True)"

definition call_for :: "user_id \<Rightarrow> date \<Rightarrow> user_id \<times> date \<times> bool \<Rightarrow> bool" where
  "call_for u w c = (fst c = u \<and> fst (snd c) = w)"

definition notice_for :: "user_id \<Rightarrow> date \<Rightarrow> outbound \<Rightarrow> bool" where
  "notice_for u w m =
     (case m of
        FailureNotice a b t \<Rightarrow> a = u \<and> b = w
      | RetrySuccessNotice a b \<Rightarrow> a = u \<and> b = w
      | MaxRetriesNotice a b \<Rightarrow> a = u \<and> b = w
      | AdminSummary p \<Rightarrow> False)"

text \<open>A JSON store with the sample week and three due failure records for it.\<close>

definition sample_capped_store :: data_handler where
  "sample_capped_store =
     JSONBackend (initial_data\<lparr> jd_responses := sample_week,
       jd_failed_reports := [(7, [sample_failure (Date 2025 1 6) (Some 5),
                                  sample_failure (Date 2025 1 6) (Some 6),
                                  sample_failure (Date 2025 1 6) (Some 7)])] \<rparr>)"

text \<open>
  A SQLite store with the sample week and two due failure rows for it, and the time of the
  sweep that follows the one at \<open>sample_now\<close>: the sweep runs every six hours.
\<close>

definition sample_retry_store :: data_handler where
  "sample_retry_store =
     SQLiteBackend (empty_db\<lparr> db_sessions := sample_week,
       db_failed_reports := [sample_row 7 (Date 2025 1 6) (Some 5),
                             sample_row 7 (Date 2025 1 6) (Some 6)] \<rparr>)"

definition sample_next_sweep :: datetime where
  "sample_next_sweep = sample_now + 21600000000"

section \<open>Clearing the failure ledger\<close>

lemma json_clear_same_user:
  "json_failures (json_clear_failed_report_attempts d u w) u
     = filter (\<lambda>f. fl_week_start f \<noteq> w) (json_failures d u)"
  by (auto simp: json_failures_def json_clear_failed_report_attempts_def Let_def
        update_conv' delete_conv' split: option.splits)

lemma json_clear_other_user:
  "u' \<noteq> u \<Longrightarrow> map_of (jd_failed_reports (json_clear_failed_report_attempts d u w)) u'
     = map_of (jd_failed_reports d) u'"
  by (auto simp: json_clear_failed_report_attempts_def Let_def
        update_conv' delete_conv' split: option.splits)

lemma json_clear_rest:
  "jd_responses (json_clear_failed_report_attempts d u w) = jd_responses d \<and>
   jd_weekly_reports (json_clear_failed_report_attempts d u w) = jd_weekly_reports d \<and>
   jd_user_preferences (json_clear_failed_report_attempts d u w) = jd_user_preferences d \<and>
   jd_last_report_generated (json_clear_failed_report_attempts d u w) = jd_last_report_generated d"
  by (auto simp: json_clear_failed_report_attempts_def Let_def split: option.splits)

lemma sql_clear_frame:
  "db_failed_reports (sql_clear_failed_report_attempts db u w)
     = filter (\<lambda>r. \<not> (fr_user_id r = u \<and> fr_week_start r = w)) (db_failed_reports db) \<and>
   db_sessions (sql_clear_failed_report_attempts db u w) = db_sessions db \<and>
   db_weekly_reports (sql_clear_failed_report_attempts db u w) = db_weekly_reports db \<and>
   db_user_preferences (sql_clear_failed_report_attempts db u w) = db_user_preferences db \<and>
   db_admin_notifications (sql_clear_failed_report_attempts db u w) = db_admin_notifications db \<and>
   db_utc_offset (sql_clear_failed_report_attempts db u w) = db_utc_offset db"
  by (simp add: sql_clear_failed_report_attempts_def in_group_def)

text \<open>
  C10: \<open>clear_failed_report_attempts(user, week_start)\<close> removes exactly the failure
  records of that user whose week start is the argument. In the JSON file the user's list
  keeps the entries of the other weeks, in their order, and the list of every other user is
  what it was; in the SQLite table exactly the rows of that user and week are deleted. The
  sessions, reports, preferences and the rest of the store are unchanged.
\<close>

theorem clear_failed_report_attempts_frame:
  assumes "u' \<noteq> u"
  shows "json_failures (json_clear_failed_report_attempts d u w) u
           = filter (\<lambda>f. fl_week_start f \<noteq> w) (json_failures d u)
       \<and> json_failures (json_clear_failed_report_attempts d u w) u' = json_failures d u'
       \<and> jd_responses (json_clear_failed_report_attempts d u w) = jd_responses d
       \<and> jd_weekly_reports (json_clear_failed_report_attempts d u w) = jd_weekly_reports d
       \<and> jd_user_preferences (json_clear_failed_report_attempts d u w) = jd_user_preferences d
       \<and> jd_last_report_generated (json_clear_failed_report_attempts d u w) = jd_last_report_generated d
       \<and> db_failed_reports (sql_clear_failed_report_attempts db u w)
           = filter (\<lambda>r. \<not> (fr_user_id r = u \<and> fr_week_start r = w)) (db_failed_reports db)
       \<and> db_sessions (sql_clear_failed_report_attempts db u w) = db_sessions db
       \<and> db_weekly_reports (sql_clear_failed_report_attempts db u w) = db_weekly_reports db
       \<and> db_user_preferences (sql_clear_failed_report_attempts db u w) = db_user_preferences db
       \<and> db_admin_notifications (sql_clear_failed_report_attempts db u w) = db_admin_notifications db
       \<and> db_utc_offset (sql_clear_failed_report_attempts db u w) = db_utc_offset db"
  using assms json_clear_same_user [of d u w] json_clear_other_user [of u' u d w]
    json_clear_rest [of d u w] sql_clear_frame [of db u w]
  by (simp add: json_failures_def)

theorem clear_failed_report_attempts_frame_witness:
  "(2::int) \<noteq> 1
   \<and> json_failures (json_clear_failed_report_attempts
        (json_ledger [(1, [sample_failure (Date 2025 1 6) None, sample_failure (Date 2025 1 13) None]),
                      (2, [sample_failure (Date 2025 1 6) None])]) 1 (Date 2025 1 6)) 1
       = [sample_failure (Date 2025 1 13) None]
   \<and> json_failures (json_clear_failed_report_attempts
        (json_ledger [(1, [sample_failure (Date 2025 1 6) None, sample_failure (Date 2025 1 13) None]),
                      (2, [sample_failure (Date 2025 1 6) None])]) 1 (Date 2025 1 6)) 2
       = [sample_failure (Date 2025 1 6) None]
   \<and> db_failed_reports (sql_clear_failed_report_attempts
        (sql_ledger [sample_row 1 (Date 2025 1 6) None, sample_row 1 (Date 2025 1 13) None,
                     sample_row 2 (Date 2025 1 6) None]) 1 (Date 2025 1 6))
       = [sample_row 1 (Date 2025 1 13) None, sample_row 2 (Date 2025 1 6) None]"
  using clear_failed_report_attempts_frame [of 2 1
      "json_ledger [(1, [sample_failure (Date 2025 1 6) None, sample_failure (Date 2025 1 13) None]),
                    (2, [sample_failure (Date 2025 1 6) None])]" "Date 2025 1 6"
      "sql_ledger [sample_row 1 (Date 2025 1 6) None, sample_row 1 (Date 2025 1 13) None,
                   sample_row 2 (Date 2025 1 6) None]"]
  by (simp add: json_failures_def json_ledger_def sql_ledger_def sample_failure_def sample_row_def
        initial_data_def empty_db_def)

text \<open>
  C3: \<open>get_pending_report_retries\<close> is to list every (user, week start) with a due
  failure record exactly once, with the total number of failure records of that key as its
  attempts. Neither backend does both. The JSON backend counts all records of the key but
  returns one entry for each due record: two due records give the key twice. The SQLite
  backend groups by key but counts only the due rows: with one due and one not yet due row
  it reports 1 attempt where the table holds 2 records of the key.
\<close>

theorem get_pending_report_retries_diverge:
  "json_get_pending_report_retries 100
     (json_ledger [(1, [sample_failure (Date 2025 1 6) (Some 50), sample_failure (Date 2025 1 6) (Some 60)])])
   = [\<lparr> ri_user_id = 1, ri_week_start = Date 2025 1 6, ri_original_error = ''timeout'', ri_attempts = 2 \<rparr>,
      \<lparr> ri_user_id = 1, ri_week_start = Date 2025 1 6, ri_original_error = ''timeout'', ri_attempts = 2 \<rparr>]
   \<and> sql_get_pending_report_retries 100
     (sql_ledger [sample_row 1 (Date 2025 1 6) (Some 50), sample_row 1 (Date 2025 1 6) (Some 150)])
   = [\<lparr> ri_user_id = 1, ri_week_start = Date 2025 1 6, ri_original_error = ''timeout'', ri_attempts = 1 \<rparr>]
   \<and> length (filter (in_group (1, Date 2025 1 6))
        (db_failed_reports (sql_ledger [sample_row 1 (Date 2025 1 6) (Some 50), sample_row 1 (Date 2025 1 6) (Some 150)]))) = 2"
  by (simp add: json_get_pending_report_retries_def json_user_retries_def json_is_due_def
        sql_get_pending_report_retries_def sql_is_due_def in_group_def
        json_ledger_def sql_ledger_def sample_failure_def sample_row_def
        initial_data_def empty_db_def Let_def)

section \<open>The week key at the turn of the year\<close>

lemma week_key_of_2024_12_30: "week_key_of (Date 2024 12 30) = ''2024_week_01''"
  by code_simp

lemma week_key_of_2024_01_01: "week_key_of (Date 2024 1 1) = ''2024_week_01''"
  by code_simp

lemma valid_date_samples: "valid_date (Date 2024 12 30) \<and> valid_date (Date 2024 1 1)"
  by code_simp

lemma add_days_2024_01_01: "add_days (Date 2024 1 1) 6 = Some (Date 2024 1 7)"
  by code_simp

lemma iso_2024_12_30:
  "weekday (Date 2024 1 1) = 0 \<and> weekday (Date 2024 12 30) = 0 \<and>
   iso_year (Date 2024 1 1) = 2024 \<and> iso_week (Date 2024 1 1) = 1 \<and>
   iso_year (Date 2024 12 30) = 2025 \<and> iso_week (Date 2024 12 30) = 1"
  by code_simp

text \<open>
  C1: the key of a weekly report is to be the pair of the ISO year and the ISO week of its
  Monday, so that two Mondays never share a key. Both backends take the calendar year of
  the date instead. Monday 2024-12-30 opens week 1 of the ISO year 2025 and Monday
  2024-01-01 opens week 1 of the ISO year 2024; both get the key \<open>2024_week_01\<close>, and a
  lookup for the week of 2024-12-30 returns the report saved for the week of 2024-01-01,
  in the JSON file and in the SQLite table alike.
\<close>

theorem week_key_year_boundary_collision:
  "weekday (Date 2024 1 1) = 0 \<and> weekday (Date 2024 12 30) = 0
   \<and> iso_year (Date 2024 1 1) = 2024 \<and> iso_week (Date 2024 1 1) = 1
   \<and> iso_year (Date 2024 12 30) = 2025 \<and> iso_week (Date 2024 12 30) = 1
   \<and> week_key (Date 2024 1 1) = Some ''2024_week_01''
   \<and> week_key (Date 2024 12 30) = Some ''2024_week_01''
   \<and> (case json_save_weekly_report 0 initial_data 1 (Date 2024 1 1) ''january'' ''in'' 3 None of
         Inl e \<Rightarrow> False
       | Inr d \<Rightarrow> json_get_weekly_report d 1 (Date 2024 12 30)
                   = Some (make_report 0 (Date 2024 1 1) (Date 2024 1 7) ''january'' ''in'' 3 None))
   \<and> (case sql_save_weekly_report 0 empty_db 1 (Date 2024 1 1) ''january'' ''in'' 3 None of
         Inl e \<Rightarrow> False
       | Inr db \<Rightarrow> sql_get_weekly_report db 1 (Date 2024 12 30)
                    = Some (make_report 0 (Date 2024 1 1) (Date 2024 1 7) ''january'' ''in'' 3 None))"
  using week_key_of_2024_12_30 week_key_of_2024_01_01 valid_date_samples add_days_2024_01_01
    iso_2024_12_30
  by (simp add: week_key_def json_get_weekly_report_def json_save_weekly_report_def
        sql_get_weekly_report_def sql_save_weekly_report_def strptime_def initial_data_def
        empty_db_def insert_or_replace_def same_report_key_def sql_clock_def)

section \<open>Data sufficiency\<close>

lemma days_with_entries_length: "days_with_entries sessions = length (unique_dates sessions)"
  by (simp add: days_with_entries_def unique_dates_def length_remdups_card_conv)

lemma previous_week_start_sample: "get_previous_week_start sample_now = Some (Date 2025 1 6)"
  by code_simp

lemma week_sessions_sample:
  "get_week_sessions (JSONBackend (initial_data\<lparr>jd_responses := sample_week\<rparr>)) 7 (Date 2025 1 6)
     = sample_week"
  by code_simp

lemma no_report_sample:
  "get_weekly_report (JSONBackend (initial_data\<lparr>jd_responses := sample_week\<rparr>)) 7 (Date 2025 1 6)
     = None"
  by code_simp

lemma validate_two_days:
  "validate_data_sufficiency (take 3 sample_week)
     = (False, 2, ''Insufficient data: only 2 days with entries. Need at least 3 days.'')"
  by code_simp

lemma str_nat_0: "str_nat 0 = ''0''"
  by code_simp

lemma days_sample: "days_with_entries sample_week = 3 \<and> days_with_entries (take 3 sample_week) = 2"
  by (simp add: days_with_entries_def sample_week_def sample_session_def List.map_filter_def)

text \<open>
  C4, as the claim states it: for 0, 1 or 2 distinct dates the verdict is not-sufficient
  with the count in the message. For the empty list of sessions the count is 0 and the
  message is the fixed text \<open>No data available for the past week.\<close>, which holds no
  digit of the count.
\<close>

theorem validate_data_sufficiency_empty_counterexample:
  "days_with_entries [] = 0
   \<and> validate_data_sufficiency [] = (False, 0, ''No data available for the past week.'')
   \<and> set (str_nat 0) \<inter> set (snd (snd (validate_data_sufficiency []))) = {}"
  using str_nat_0
  by (simp add: days_with_entries_def validate_data_sufficiency_def List.map_filter_def)

text \<open>
  C4, amended: sufficiency is decided by the number of distinct calendar dates that carry a
  session of either type alone: not sufficient for 0, 1 or 2 dates, sufficient for 3 or
  more, and the count is returned with the verdict. For a list that is not empty and has
  fewer than 3 dates the message names the count; for the empty list it is the fixed text
  above. With no report stored for the previous week, \<open>should_generate_report\<close> is
  eligible exactly when the sessions of that week have 3 or more dates.
\<close>

theorem validate_data_sufficiency_by_days:
  "(fst (validate_data_sufficiency sessions) \<longleftrightarrow> 3 \<le> days_with_entries sessions)
   \<and> fst (snd (validate_data_sufficiency sessions)) = days_with_entries sessions
   \<and> validate_data_sufficiency [] = (False, 0, ''No data available for the past week.'')
   \<and> (sessions \<noteq> [] \<and> days_with_entries sessions < 3 \<longrightarrow>
        snd (snd (validate_data_sufficiency sessions))
          = ''Insufficient data: only '' @ str_nat (days_with_entries sessions) @ '' day''
              @ (if days_with_entries sessions \<noteq> 1 then ''s'' else [])
              @ '' with entries. Need at least 3 days.'')
   \<and> (get_previous_week_start now = Some w \<and> get_weekly_report dh u w = None \<longrightarrow>
        (fst (should_generate_report now dh u)
           \<longleftrightarrow> 3 \<le> days_with_entries (get_week_sessions dh u w)))"
proof -
  have n: "\<And>ss. length (unique_dates ss) = days_with_entries ss"
    by (simp add: days_with_entries_length)
  have e: "days_with_entries [] = 0"
    by (simp add: days_with_entries_def List.map_filter_def)
  have v: "\<And>ss. fst (validate_data_sufficiency ss) \<longleftrightarrow> 3 \<le> days_with_entries ss"
    using e by (simp add: validate_data_sufficiency_def Let_def n)
  have c: "fst (snd (validate_data_sufficiency sessions)) = days_with_entries sessions"
    using e by (simp add: validate_data_sufficiency_def Let_def n)
  have z: "validate_data_sufficiency [] = (False, 0, ''No data available for the past week.'')"
    by (simp add: validate_data_sufficiency_def)
  have m: "sessions \<noteq> [] \<and> days_with_entries sessions < 3 \<longrightarrow>
        snd (snd (validate_data_sufficiency sessions))
          = ''Insufficient data: only '' @ str_nat (days_with_entries sessions) @ '' day''
              @ (if days_with_entries sessions \<noteq> 1 then ''s'' else [])
              @ '' with entries. Need at least 3 days.''"
    by (simp add: validate_data_sufficiency_def Let_def n)
  have g: "get_previous_week_start now = Some w \<and> get_weekly_report dh u w = None \<longrightarrow>
        (fst (should_generate_report now dh u)
           \<longleftrightarrow> 3 \<le> days_with_entries (get_week_sessions dh u w))"
    using v [of "get_week_sessions dh u w"]
    by (simp add: should_generate_report_def Let_def)
  show ?thesis
    by (intro conjI) (rule v c z m g)+
qed

theorem validate_data_sufficiency_by_days_witness:
  "take 3 sample_week \<noteq> [] \<and> days_with_entries (take 3 sample_week) < 3
   \<and> snd (snd (validate_data_sufficiency (take 3 sample_week)))
       = ''Insufficient data: only 2 days with entries. Need at least 3 days.''
   \<and> get_previous_week_start sample_now = Some (Date 2025 1 6)
   \<and> get_weekly_report (JSONBackend (initial_data\<lparr>jd_responses := sample_week\<rparr>)) 7 (Date 2025 1 6) = None
   \<and> fst (should_generate_report sample_now (JSONBackend (initial_data\<lparr>jd_responses := sample_week\<rparr>)) 7)"
proof -
  note t = validate_data_sufficiency_by_days [of "take 3 sample_week" sample_now "Date 2025 1 6"
      "JSONBackend (initial_data\<lparr>jd_responses := sample_week\<rparr>)" 7]
  have a: "take 3 sample_week \<noteq> []"
    by (simp add: sample_week_def)
  have b: "days_with_entries (take 3 sample_week) < 3"
    using days_sample by simp
  have c: "snd (snd (validate_data_sufficiency (take 3 sample_week)))
       = ''Insufficient data: only 2 days with entries. Need at least 3 days.''"
    using validate_two_days by simp
  have d: "fst (should_generate_report sample_now
                  (JSONBackend (initial_data\<lparr>jd_responses := sample_week\<rparr>)) 7)"
    using t [THEN conjunct2, THEN conjunct2, THEN conjunct2, THEN conjunct2]
      previous_week_start_sample no_report_sample week_sessions_sample days_sample
    by simp
  show ?thesis
    by (intro conjI) (rule a b c d previous_week_start_sample no_report_sample)+
qed

section \<open>The failure path of a generation\<close>

lemma failure_retries_save:
  "failure_retries (save_failed_report_attempt now dh u w e m r) u w = failure_retries dh u w @ [r]"
  by (cases dh)
     (auto simp: failure_retries_def save_failed_report_attempt_def json_failures_def
        json_save_failed_report_attempt_def sql_save_failed_report_attempt_def in_group_def
        update_conv' Let_def split: option.splits)

lemma failure_retries_add_issue:
  "failure_retries (add_issue_for_notification now dh t u' m) u w = failure_retries dh u w"
  by (cases dh)
     (auto simp: failure_retries_def add_issue_for_notification_def add_admin_notification_def
        sql_add_admin_notification_def)

lemma failure_retries_summary:
  "failure_retries (st_data_handler (snd (send_daily_admin_summary now st))) u w
     = failure_retries (st_data_handler st) u w"
  by (cases "st_data_handler st")
     (auto simp: failure_retries_def send_daily_admin_summary_def Let_def
        should_notify_admin_today_def get_admin_notifications_def mark_admin_notified_today_def
        clear_pending_admin_issues_def sql_mark_admin_notified_today_def
        sql_clear_pending_admin_issues_def split: sum.splits)

lemma failure_retries_notify_llm:
  "failure_retries (st_data_handler (notify_llm_failure now st u' e m)) u w
     = failure_retries (st_data_handler st) u w"
  by (simp add: notify_llm_failure_def Let_def failure_retries_summary failure_retries_add_issue)

lemma failure_retries_handle:
  "failure_retries (st_data_handler (handle_report_generation_failure now st u w e m t)) u w
     = failure_retries (st_data_handler st) u w @ [Some (now + timedelta_days 2)]"
  by (simp add: handle_report_generation_failure_def Let_def failure_retries_notify_llm
        notify_user_of_failure_def failure_retries_save)

lemma generate_report_short:
  "length (strip t) < 50 \<Longrightarrow>
   generate_report model (Completion (Some t))
     = (False, ''Generated report was too short or empty.'',
        \<lparr> md_model_used = model, md_error_type = Some ''insufficient_content'',
          md_report_length = None \<rparr>)"
  by (simp add: generate_report_def)

lemma strip_sample: "length (strip ''too short'') < 50"
  by code_simp

lemma validate_sample_week: "validate_data_sufficiency sample_week = (True, 3, ''Sufficient data: 3 days with entries.'')"
  by code_simp

text \<open>
  C7: when the narrative service returns no text, an empty text or a text whose stripped
  length is under 50 characters, \<open>generate_report\<close> returns failure with the error type
  \<open>insufficient_content\<close>. In \<open>generate_weekly_report\<close> called with \<open>is_retry=False\<close> for
  a week with sufficient data, that result takes the failure path: the call returns
  failure, and one failure record with the retry time \<open>now + 2 days\<close> is added to the
  records of that user and week.
\<close>

theorem insufficient_content_is_failure:
  assumes "length (strip t) < 50"
    and "fst (validate_data_sufficiency (get_week_sessions (st_data_handler st) u w))"
    and "w_service wd (st_requests st) = Completion (Some t)"
  shows "generate_report model (Completion (Some t))
           = (False, ''Generated report was too short or empty.'',
              \<lparr> md_model_used = model, md_error_type = Some ''insufficient_content'',
                md_report_length = None \<rparr>)
       \<and> generate_report model (Completion None)
           = (False, ''Generated report was too short or empty.'',
              \<lparr> md_model_used = model, md_error_type = Some ''insufficient_content'',
                md_report_length = None \<rparr>)
       \<and> fst (generate_weekly_report wd now st u w False)
           = (False, ''Generated report was too short or empty.'')
       \<and> failure_retries (st_data_handler (snd (generate_weekly_report wd now st u w False))) u w
           = failure_retries (st_data_handler st) u w @ [Some (now + timedelta_days 2)]"
proof -
  have g: "\<And>m. generate_report m (Completion (Some t))
           = (False, ''Generated report was too short or empty.'',
              \<lparr> md_model_used = m, md_error_type = Some ''insufficient_content'',
                md_report_length = None \<rparr>)"
    using assms(1) by (rule generate_report_short)
  have n: "generate_report model (Completion None)
           = (False, ''Generated report was too short or empty.'',
              \<lparr> md_model_used = model, md_error_type = Some ''insufficient_content'',
                md_report_length = None \<rparr>)"
    by (simp add: generate_report_def)
  have r: "fst (generate_weekly_report wd now st u w False)
           = (False, ''Generated report was too short or empty.'')"
    using assms(2,3) by (simp add: generate_weekly_report_def Let_def g)
  have f: "failure_retries (st_data_handler (snd (generate_weekly_report wd now st u w False))) u w
           = failure_retries (st_data_handler st) u w @ [Some (now + timedelta_days 2)]"
    using assms(2,3) by (simp add: generate_weekly_report_def Let_def g failure_retries_handle)
  show ?thesis
    by (intro conjI) (rule g n r f)+
qed

theorem insufficient_content_is_failure_witness:
  "length (strip ''too short'') < 50
   \<and> fst (validate_data_sufficiency (get_week_sessions
        (st_data_handler (sample_state (JSONBackend (initial_data\<lparr>jd_responses := sample_week\<rparr>))))
        7 (Date 2025 1 6)))
   \<and> fst (generate_weekly_report (sample_world (Completion (Some ''too short''))) sample_now
        (sample_state (JSONBackend (initial_data\<lparr>jd_responses := sample_week\<rparr>))) 7 (Date 2025 1 6) False)
       = (False, ''Generated report was too short or empty.'')
   \<and> failure_retries (st_data_handler (snd (generate_weekly_report
        (sample_world (Completion (Some ''too short''))) sample_now
        (sample_state (JSONBackend (initial_data\<lparr>jd_responses := sample_week\<rparr>))) 7 (Date 2025 1 6) False)))
        7 (Date 2025 1 6)
       = [Some (sample_now + timedelta_days 2)]"
proof -
  have a: "fst (validate_data_sufficiency (get_week_sessions
        (st_data_handler (sample_state (JSONBackend (initial_data\<lparr>jd_responses := sample_week\<rparr>))))
        7 (Date 2025 1 6)))"
    using week_sessions_sample validate_sample_week by (simp add: sample_state_def)
  have b: "w_service (sample_world (Completion (Some ''too short'')))
             (st_requests (sample_state (JSONBackend (initial_data\<lparr>jd_responses := sample_week\<rparr>))))
           = Completion (Some ''too short'')"
    by (simp add: sample_world_def)
  have e: "failure_retries (st_data_handler (sample_state
             (JSONBackend (initial_data\<lparr>jd_responses := sample_week\<rparr>)))) 7 (Date 2025 1 6) = []"
    by (simp add: failure_retries_def sample_state_def json_failures_def initial_data_def)
  note t = insufficient_content_is_failure [OF strip_sample a b, of "''m''" sample_now]
  show ?thesis
    using t a e strip_sample by simp
qed

section \<open>Reminders that fire after the session is recorded\<close>

lemma fold_today_sessions:
  "fold (\<lambda>s today_sessions.
           if ss_user_id s = u \<and> ss_date s = Some today
           then today_sessions(ss_session_type s := Some s) else today_sessions) xs m ty = None
   \<longleftrightarrow> (m ty = None \<and>
        \<not> list_ex (\<lambda>s. ss_user_id s = u \<and> ss_date s = Some today \<and> ss_session_type s = ty) xs)"
  by (induction xs arbitrary: m) auto

lemma json_today_recorded:
  "json_get_today_sessions now d u ty = None
   \<longleftrightarrow> \<not> entries_dated u (JSONBackend d) \<or> \<not> recorded_today now (JSONBackend d) u ty"
  by (simp add: json_get_today_sessions_def recorded_today_def entries_dated_def sessions_of_def
        is_todays_def fold_today_sessions list_ex_iff)






text \<open>
  The suppression is the only reason for silence on the JSON backend: with no session of
  the type recorded today, a known time zone and a callback, one reminder is delivered.
\<close>

lemma send_reminder_delivers:
  assumes "rs_data_handler st = JSONBackend d"
    and "\<not> recorded_today now (JSONBackend d) u reminder_type"
    and "tz_known tz (user_timezone (JSONBackend d) u)"
    and "rs_reminder_callback st"
  shows "length (rs_delivered (send_reminder tz now st u reminder_type)) = Suc (length (rs_delivered st))"
  using assms
  by (simp add: send_reminder_def get_today_sessions_def Let_def json_today_recorded)

section \<open>The daily admin summary\<close>

lemma flush_recorded_day:
  "date_of now' = date_of now \<Longrightarrow> flush_recorded now' dh = flush_recorded now dh"
  by (cases dh) (simp_all add: flush_recorded_def)

lemma should_notify_flushed:
  "should_notify_admin_today now dh \<longleftrightarrow> (\<exists>db. dh = SQLiteBackend db) \<and> \<not> flush_recorded now dh"
  by (cases dh)
     (auto simp: should_notify_admin_today_def get_admin_notifications_def flush_recorded_def
        sql_get_admin_notifications_def Let_def)

lemma send_when_flushed:
  "flush_recorded now (st_data_handler st) \<Longrightarrow> send_daily_admin_summary now st = (False, st)"
  by (simp add: send_daily_admin_summary_def should_notify_flushed)

lemma send_false_unchanged:
  "\<not> fst (send_daily_admin_summary now st) \<Longrightarrow> snd (send_daily_admin_summary now st) = st"
  by (cases "st_data_handler st")
     (auto simp: send_daily_admin_summary_def should_notify_flushed get_admin_notifications_def
        mark_admin_notified_today_def clear_pending_admin_issues_def Let_def)

lemma send_true_effect:
  assumes "fst (send_daily_admin_summary now st)"
  shows "pending_now now (st_data_handler (snd (send_daily_admin_summary now st))) = []"
    and "st_sent (snd (send_daily_admin_summary now st))
           = st_sent st @ [AdminSummary (pending_now now (st_data_handler st))]"
  using assms
  by (cases "st_data_handler st";
      auto simp: send_daily_admin_summary_def should_notify_flushed get_admin_notifications_def
        mark_admin_notified_today_def clear_pending_admin_issues_def Let_def flush_recorded_def
        pending_now_def sql_get_admin_notifications_def sql_mark_admin_notified_today_def
        sql_clear_pending_admin_issues_def is_summary_def list_ex_iff split: if_splits)+

lemma send_true_flush:
  assumes "fst (send_daily_admin_summary now st)" and "clocks_agree (st_data_handler st)"
  shows "flush_recorded now (st_data_handler (snd (send_daily_admin_summary now st)))"
  using assms
  by (cases "st_data_handler st";
      auto simp: send_daily_admin_summary_def should_notify_flushed get_admin_notifications_def
        mark_admin_notified_today_def clear_pending_admin_issues_def Let_def flush_recorded_def
        sql_mark_admin_notified_today_def sql_clear_pending_admin_issues_def is_summary_def
        clocks_agree_def sql_clock_def list_ex_iff split: if_splits)

lemma clocks_agree_add_issue:
  "clocks_agree (add_issue_for_notification t dh ty u m) = clocks_agree dh"
  by (cases dh)
     (auto simp: clocks_agree_def add_issue_for_notification_def add_admin_notification_def
        sql_add_admin_notification_def)

lemma clocks_agree_send:
  "clocks_agree (st_data_handler (snd (send_daily_admin_summary t st)))
     = clocks_agree (st_data_handler st)"
  by (cases "st_data_handler st")
     (auto simp: clocks_agree_def send_daily_admin_summary_def Let_def
        should_notify_admin_today_def get_admin_notifications_def mark_admin_notified_today_def
        clear_pending_admin_issues_def sql_mark_admin_notified_today_def
        sql_clear_pending_admin_issues_def split: sum.splits)

lemma clocks_agree_step:
  "clocks_agree (st_data_handler (admin_step ev st)) = clocks_agree (st_data_handler st)"
proof (cases ev)
  case (Pair t e)
  then show ?thesis
    by (cases e)
       (simp_all add: clocks_agree_add_issue clocks_agree_send notify_llm_failure_def Let_def)
qed

lemma flush_recorded_add_issue:
  "flush_recorded now dh \<Longrightarrow> flush_recorded now (add_issue_for_notification t dh ty u m)"
  by (cases dh)
     (auto simp: flush_recorded_def add_issue_for_notification_def add_admin_notification_def
        sql_add_admin_notification_def list_ex_iff)

lemma admin_step_flushed:
  assumes "flush_recorded now (st_data_handler st)" and "same_day now ev"
  shows "flush_recorded now (st_data_handler (admin_step ev st))
         \<and> st_sent (admin_step ev st) = st_sent st"
proof (cases ev)
  case (Pair t e)
  with assms(2) have d: "date_of t = date_of now"
    by (simp add: same_day_def)
  have f: "flush_recorded t (st_data_handler st)"
    using assms(1) flush_recorded_day [OF d] by simp
  show ?thesis
  proof (cases e)
    case (AddIssue ty u m)
    with Pair assms(1) show ?thesis
      by (simp add: flush_recorded_add_issue)
  next
    case (LLMFailure u m md)
    have "flush_recorded t (add_issue_for_notification t (st_data_handler st) ''llm_failure'' u
                              (''Model: '' @ md @ '', Error: '' @ m))"
      using f by (rule flush_recorded_add_issue)
    then have "\<not> should_notify_admin_today t
                   (add_issue_for_notification t (st_data_handler st) ''llm_failure'' u
                      (''Model: '' @ md @ '', Error: '' @ m))"
      by (simp add: should_notify_flushed)
    with Pair LLMFailure assms(1) show ?thesis
      by (simp add: notify_llm_failure_def Let_def flush_recorded_add_issue)
  next
    case DailySummary
    with Pair assms(1) f show ?thesis
      by (simp add: send_when_flushed)
  qed
qed

lemma admin_run_flushed:
  "flush_recorded now (st_data_handler st) \<Longrightarrow> list_all (same_day now) evs \<Longrightarrow>
   st_sent (fold admin_step evs st) = st_sent st"
proof (induction evs arbitrary: st)
  case Nil
  then show ?case by simp
next
  case (Cons ev evs)
  then have s: "flush_recorded now (st_data_handler (admin_step ev st))
                \<and> st_sent (admin_step ev st) = st_sent st"
    by (simp add: admin_step_flushed)
  with Cons show ?case by simp
qed

lemma send_cases:
  "st_sent (snd (send_daily_admin_summary t st)) = st_sent st
   \<or> st_sent (snd (send_daily_admin_summary t st))
       = st_sent st @ [AdminSummary (pending_now t (st_data_handler st))]"
proof (cases "fst (send_daily_admin_summary t st)")
  case True
  then show ?thesis
    using send_true_effect(2) [OF True] by simp
next
  case False
  then show ?thesis
    by (simp add: send_false_unchanged)
qed

lemma send_cases_agree:
  assumes "clocks_agree (st_data_handler st)"
  shows "st_sent (snd (send_daily_admin_summary t st)) = st_sent st
   \<or> (flush_recorded t (st_data_handler (snd (send_daily_admin_summary t st)))
       \<and> st_sent (snd (send_daily_admin_summary t st))
           = st_sent st @ [AdminSummary (pending_now t (st_data_handler st))])"
proof (cases "fst (send_daily_admin_summary t st)")
  case True
  then show ?thesis
    using send_true_flush [OF True assms] send_true_effect(2) [OF True] by simp
next
  case False
  then show ?thesis
    by (simp add: send_false_unchanged)
qed

lemma admin_step_cases:
  assumes "same_day now ev" and "clocks_agree (st_data_handler st)"
  shows "st_sent (admin_step ev st) = st_sent st
         \<or> (flush_recorded now (st_data_handler (admin_step ev st))
             \<and> (\<exists>p. st_sent (admin_step ev st) = st_sent st @ [AdminSummary p]))"
proof (cases ev)
  case (Pair t e)
  with assms have d: "date_of t = date_of now"
    by (simp add: same_day_def)
  show ?thesis
  proof (cases e)
    case (AddIssue ty u m)
    with Pair show ?thesis by simp
  next
    case (LLMFailure u m md)
    have a: "clocks_agree (st_data_handler (st\<lparr> st_data_handler :=
               add_issue_for_notification t (st_data_handler st) ''llm_failure'' u
                 (''Model: '' @ md @ '', Error: '' @ m) \<rparr>))"
      using assms(2) by (simp add: clocks_agree_add_issue)
    show ?thesis
      using send_cases_agree [OF a, of t] flush_recorded_day [OF d] Pair LLMFailure
      by (auto simp: notify_llm_failure_def Let_def)
  next
    case DailySummary
    show ?thesis
      using send_cases_agree [OF assms(2), of t] flush_recorded_day [OF d] Pair DailySummary
      by auto
  qed
qed

lemma admin_run_at_most_one:
  "list_all (same_day now) evs \<Longrightarrow> clocks_agree (st_data_handler st) \<Longrightarrow>
   length (filter is_admin_summary (st_sent (fold admin_step evs st)))
     \<le> Suc (length (filter is_admin_summary (st_sent st)))"
proof (induction evs arbitrary: st)
  case Nil
  then show ?case by simp
next
  case (Cons ev evs)
  then have sd: "same_day now ev" and rest: "list_all (same_day now) evs"
    by simp_all
  have ag: "clocks_agree (st_data_handler (admin_step ev st))"
    using Cons.prems(2) by (simp add: clocks_agree_step)
  from admin_step_cases [OF sd Cons.prems(2)]
  show ?case
  proof
    assume "st_sent (admin_step ev st) = st_sent st"
    with Cons.IH [OF rest ag] show ?thesis by simp
  next
    assume a: "flush_recorded now (st_data_handler (admin_step ev st))
             \<and> (\<exists>p. st_sent (admin_step ev st) = st_sent st @ [AdminSummary p])"
    then have f: "flush_recorded now (st_data_handler (admin_step ev st))"
      by (rule conjunct1)
    have "st_sent (fold admin_step evs (admin_step ev st)) = st_sent (admin_step ev st)"
      using f rest by (rule admin_run_flushed)
    with a show ?thesis
      by (auto simp: is_admin_summary_def)
  qed
qed

text \<open>
  With the local clock on UTC the rate limit works: once a flush is recorded for today,
  \<open>send_daily_admin_summary\<close> sends nothing and returns False, and so does every later
  event of the same day that touches the queue; a flush that does send delivers one summary
  of the pending entries, records the flush for today and leaves no entry pending; over any
  sequence of queue events of one day at most one summary is sent.
\<close>

lemma daily_admin_summary_once_in_utc:
  "(flush_recorded now (st_data_handler st) \<longrightarrow> send_daily_admin_summary now st = (False, st))
   \<and> (fst (send_daily_admin_summary now st) \<longrightarrow>
        pending_now now (st_data_handler (snd (send_daily_admin_summary now st))) = []
        \<and> st_sent (snd (send_daily_admin_summary now st))
            = st_sent st @ [AdminSummary (pending_now now (st_data_handler st))])
   \<and> (fst (send_daily_admin_summary now st) \<and> clocks_agree (st_data_handler st) \<longrightarrow>
        flush_recorded now (st_data_handler (snd (send_daily_admin_summary now st))))
   \<and> (list_all (same_day now) evs \<and> clocks_agree (st_data_handler st) \<longrightarrow>
        length (filter is_admin_summary (st_sent (fold admin_step evs st)))
          \<le> Suc (length (filter is_admin_summary (st_sent st))))
   \<and> (flush_recorded now (st_data_handler st) \<and> list_all (same_day now) evs \<longrightarrow>
        st_sent (fold admin_step evs st) = st_sent st)"
  using send_when_flushed [of now st] send_true_effect [of now st] send_true_flush [of now st]
    admin_run_at_most_one [of now evs st] admin_run_flushed [of now st evs]
  by (intro conjI impI) simp_all

lemma sample_evening_dates:
  "date_of sample_evening = Date 2025 1 13 \<and> date_of sample_later_evening = Date 2025 1 13
   \<and> date_of (sample_evening - west_offset) = Date 2025 1 14
   \<and> date_of (sample_later_evening - west_offset) = Date 2025 1 14"
  by code_simp

lemma sample_west_summaries:
  "length (filter is_admin_summary (st_sent (fold admin_step
     [(sample_evening, DailySummary),
      (sample_later_evening, AddIssue ''llm_failure'' 7 ''Model: m, Error: timeout''),
      (sample_later_evening, DailySummary)] sample_west_state))) = 2"
  by code_simp

lemma sample_west_failures:
  "length (filter is_admin_summary (st_sent (fold admin_step
     ((sample_evening, LLMFailure 7 ''timeout: timed out'' ''m'')
      # replicate 5 (sample_later_evening, LLMFailure 7 ''timeout: timed out'' ''m''))
     sample_west_queue))) = 2"
  by code_simp

lemma sample_west_flush:
  "fst (send_daily_admin_summary sample_evening sample_west_state)
   \<and> \<not> flush_recorded sample_evening
         (st_data_handler (snd (send_daily_admin_summary sample_evening sample_west_state)))"
  by code_simp

text \<open>
  C9: at most one aggregated admin summary is to be sent on a calendar day, and a flush
  that sends is to mark today as flushed. The flush is looked up under Python's local date
  but recorded under SQLite's UTC date. In a process five hours west of Greenwich a flush
  at 20:00 local time of 2025-01-13 is recorded under 2025-01-14, so it does not count as
  a flush of today; when another failure is queued and the summary runs again at 21:00, a
  second summary is sent. Both are sent on 2025-01-13 by the local clock and on 2025-01-14
  by UTC. The failure path alone gets there: with four failures pending, a fifth at 20:00
  sets off the immediate summary, and five more failures at 21:00 set off a second one.
\<close>

theorem daily_admin_summary_twice:
  "date_of sample_evening = Date 2025 1 13 \<and> date_of sample_later_evening = Date 2025 1 13
   \<and> date_of (sample_evening - west_offset) = Date 2025 1 14
   \<and> date_of (sample_later_evening - west_offset) = Date 2025 1 14
   \<and> fst (send_daily_admin_summary sample_evening sample_west_state)
   \<and> \<not> flush_recorded sample_evening
         (st_data_handler (snd (send_daily_admin_summary sample_evening sample_west_state)))
   \<and> length (filter is_admin_summary (st_sent (fold admin_step
        [(sample_evening, DailySummary),
         (sample_later_evening, AddIssue ''llm_failure'' 7 ''Model: m, Error: timeout''),
         (sample_later_evening, DailySummary)] sample_west_state))) = 2
   \<and> length (filter is_admin_summary (st_sent (fold admin_step
        ((sample_evening, LLMFailure 7 ''timeout: timed out'' ''m'')
         # replicate 5 (sample_later_evening, LLMFailure 7 ''timeout: timed out'' ''m''))
        sample_west_queue))) = 2"
  using sample_evening_dates sample_west_summaries sample_west_flush sample_west_failures
  by (intro conjI) simp_all

section \<open>A successful generation\<close>

lemma find_app:
  "find P (xs @ ys) = (case find P xs of None \<Rightarrow> find P ys | Some x \<Rightarrow> Some x)"
  by (induction xs) auto

lemma find_after_replace:
  "P r \<Longrightarrow> find P (filter (\<lambda>x. \<not> P x) xs @ [r]) = Some r"
proof -
  have "find P (filter (\<lambda>x. \<not> P x) xs) = None"
    by (simp add: find_None_iff)
  then show "P r \<Longrightarrow> find P (filter (\<lambda>x. \<not> P x) xs @ [r]) = Some r"
    by (simp add: find_app)
qed

lemma count_after_replace:
  "P r \<Longrightarrow> length (filter P (filter (\<lambda>x. \<not> P x) xs @ [r])) = 1"
  by (simp add: filter_empty_conv)

lemma save_weekly_report_stored:
  assumes "save_weekly_report now dh u w c i n m = Inr dh'"
  shows "\<exists>week_end. add_days w 6 = Some week_end
           \<and> get_weekly_report dh' u w
               = Some \<lparr> rp_week_start = w, rp_week_end = week_end,
                        rp_generated_at = store_clock now dh, rp_report_content = c,
                        rp_input_data = i, rp_data_days_count = n, rp_week_number = iso_week w,
                        rp_year = year w, rp_llm_model = m, rp_generation_attempts = 1 \<rparr>
           \<and> report_count dh' u (week_key_of w) = 1"
proof (cases dh)
  case (JSONBackend d)
  with assms show ?thesis
    by (auto simp: save_weekly_report_def json_save_weekly_report_def get_weekly_report_def
          json_get_weekly_report_def report_count_def strptime_def Let_def make_report_def
          store_clock_def split: option.splits if_splits)
next
  case (SQLiteBackend db)
  with assms show ?thesis
    by (auto simp: save_weekly_report_def sql_save_weekly_report_def get_weekly_report_def
          sql_get_weekly_report_def report_count_def strptime_def Let_def insert_or_replace_def
          make_report_def store_clock_def
          find_after_replace [where P = "same_report_key u (week_key_of w)"]
          count_after_replace [where P = "same_report_key u (week_key_of w)"]
          same_report_key_def [of u "week_key_of w" "\<lparr>rr_user_id = u, rr_week_key = week_key_of w, rr_report = x\<rparr>" for x]
          split: option.splits if_splits)
qed

lemma generate_report_success:
  assumes "fst (generate_report model outcome)"
  shows "\<exists>t. outcome = Completion (Some t) \<and> 50 \<le> length (strip t)
             \<and> fst (snd (generate_report model outcome)) = strip t"
  using assms
  by (cases outcome) (auto simp: generate_report_def split: option.splits if_splits)

lemma clear_keeps_reports:
  "get_weekly_report (clear_failed_report_attempts dh u w) u' w' = get_weekly_report dh u' w'
   \<and> report_count (clear_failed_report_attempts dh u w) u' k = report_count dh u' k"
  by (cases dh)
     (auto simp: clear_failed_report_attempts_def get_weekly_report_def report_count_def
        json_get_weekly_report_def sql_get_weekly_report_def json_clear_rest sql_clear_frame
        split: option.splits)

lemma clear_empties_key:
  "failure_retries (clear_failed_report_attempts dh u w) u w = []"
  by (cases dh)
     (auto simp: clear_failed_report_attempts_def failure_retries_def json_clear_same_user
        sql_clear_frame in_group_def filter_empty_conv)

text \<open>
  C6: whenever \<open>generate_weekly_report\<close> succeeds, whatever failure records were stored
  for the user and week before, the resulting store holds the newly generated report under
  the key of that week, as the one record of that key, and no failure record of that user
  and week remains. The stored record carries the stripped text the narrative service
  returned (which is also what the call returns), the week start it was asked for and the
  Sunday that ends that week, the formatted sessions of the week and the number of their
  days, and the configured model.
\<close>

theorem generate_success_stores_and_clears:
  assumes "fst (fst (generate_weekly_report wd now st u w is_retry))"
  shows "(\<exists>week_end t.
            add_days w 6 = Some week_end
            \<and> w_service wd (st_requests st) = Completion (Some t)
            \<and> snd (fst (generate_weekly_report wd now st u w is_retry)) = strip t
            \<and> get_weekly_report (st_data_handler (snd (generate_weekly_report wd now st u w is_retry))) u w
                = Some \<lparr> rp_week_start = w, rp_week_end = week_end,
                         rp_generated_at = store_clock now (st_data_handler st),
                         rp_report_content = strip t,
                         rp_input_data =
                           w_format_session_data wd (get_week_sessions (st_data_handler st) u w),
                         rp_data_days_count =
                           days_with_entries (get_week_sessions (st_data_handler st) u w),
                         rp_week_number = iso_week w, rp_year = year w,
                         rp_llm_model = Some (w_model wd), rp_generation_attempts = 1 \<rparr>)
       \<and> report_count (st_data_handler (snd (generate_weekly_report wd now st u w is_retry))) u
            (week_key_of w) = 1
       \<and> failure_retries (st_data_handler (snd (generate_weekly_report wd now st u w is_retry))) u w = []"
proof -
  let ?sessions = "get_week_sessions (st_data_handler st) u w"
  let ?v = "validate_data_sufficiency ?sessions"
  let ?g = "generate_report (w_model wd) (w_service wd (st_requests st))"
  let ?save = "save_weekly_report now (st_data_handler st) u w (fst (snd ?g))
                 (w_format_session_data wd ?sessions) (fst (snd ?v)) (Some (md_model_used (snd (snd ?g))))"
  from assms have v: "fst ?v"
    by (auto simp: generate_weekly_report_def Let_def split: if_splits)
  from assms v have g: "fst ?g"
    by (auto simp: generate_weekly_report_def Let_def split: if_splits)
  from assms v g obtain dh' where s: "?save = Inr dh'"
    by (cases ?save) (auto simp: generate_weekly_report_def Let_def)
  from generate_report_success [OF g] obtain t where
    o: "w_service wd (st_requests st) = Completion (Some t)" and c: "fst (snd ?g) = strip t"
    by blast
  have m: "md_model_used (snd (snd ?g)) = w_model wd"
    by (simp add: generate_report_def split: api_outcome.splits)
  have n: "fst (snd ?v) = days_with_entries ?sessions"
    by (simp add: validate_data_sufficiency_def Let_def days_with_entries_length
          unique_dates_def List.map_filter_def)
  have r: "generate_weekly_report wd now st u w is_retry
             = ((True, fst (snd ?g)),
                st\<lparr> st_generate_calls := st_generate_calls st @ [(u, w, is_retry)],
                    st_requests := st_requests st + 1,
                    st_data_handler := clear_failed_report_attempts dh' u w \<rparr>)"
    using v g s by (simp add: generate_weekly_report_def Let_def)
  from save_weekly_report_stored [OF s] obtain week_end where
    w: "add_days w 6 = Some week_end"
    and k: "get_weekly_report dh' u w
              = Some \<lparr> rp_week_start = w, rp_week_end = week_end,
                       rp_generated_at = store_clock now (st_data_handler st),
                       rp_report_content = fst (snd ?g),
                       rp_input_data = w_format_session_data wd ?sessions,
                       rp_data_days_count = fst (snd ?v), rp_week_number = iso_week w,
                       rp_year = year w, rp_llm_model = Some (md_model_used (snd (snd ?g))),
                       rp_generation_attempts = 1 \<rparr>"
    and q: "report_count dh' u (week_key_of w) = 1"
    by blast
  have 1: "\<exists>week_end t.
            add_days w 6 = Some week_end
            \<and> w_service wd (st_requests st) = Completion (Some t)
            \<and> snd (fst (generate_weekly_report wd now st u w is_retry)) = strip t
            \<and> get_weekly_report (st_data_handler (snd (generate_weekly_report wd now st u w is_retry))) u w
                = Some \<lparr> rp_week_start = w, rp_week_end = week_end,
                         rp_generated_at = store_clock now (st_data_handler st),
                         rp_report_content = strip t,
                         rp_input_data = w_format_session_data wd ?sessions,
                         rp_data_days_count = days_with_entries ?sessions,
                         rp_week_number = iso_week w, rp_year = year w,
                         rp_llm_model = Some (w_model wd), rp_generation_attempts = 1 \<rparr>"
    using w o c k m n by (simp add: r clear_keeps_reports)
  have 2: "report_count (st_data_handler (snd (generate_weekly_report wd now st u w is_retry))) u
            (week_key_of w) = 1"
    using q by (simp add: r clear_keeps_reports)
  have 3: "failure_retries (st_data_handler (snd (generate_weekly_report wd now st u w is_retry))) u w = []"
    by (simp add: r clear_empties_key)
  show ?thesis
    by (intro conjI) (rule 1 2 3)+
qed

lemma sample_generation_succeeds:
  "fst (fst (generate_weekly_report (sample_world (Completion (Some sample_report_text))) sample_now
        (sample_state sample_failed_store) 7 (Date 2025 1 6) True))"
  by code_simp

lemma strip_sample_report: "strip sample_report_text = sample_report_text"
  by code_simp

theorem generate_success_stores_and_clears_witness:
  "fst (fst (generate_weekly_report (sample_world (Completion (Some sample_report_text))) sample_now
        (sample_state sample_failed_store) 7 (Date 2025 1 6) True))
   \<and> failure_retries (st_data_handler (sample_state sample_failed_store)) 7 (Date 2025 1 6)
       = [Some 5, Some 6]
   \<and> map_option rp_report_content (get_weekly_report (st_data_handler (snd (generate_weekly_report
        (sample_world (Completion (Some sample_report_text))) sample_now
        (sample_state sample_failed_store) 7 (Date 2025 1 6) True))) 7 (Date 2025 1 6))
       = Some sample_report_text
   \<and> map_option rp_week_start (get_weekly_report (st_data_handler (snd (generate_weekly_report
        (sample_world (Completion (Some sample_report_text))) sample_now
        (sample_state sample_failed_store) 7 (Date 2025 1 6) True))) 7 (Date 2025 1 6))
       = Some (Date 2025 1 6)
   \<and> report_count (st_data_handler (snd (generate_weekly_report
        (sample_world (Completion (Some sample_report_text))) sample_now
        (sample_state sample_failed_store) 7 (Date 2025 1 6) True))) 7 (week_key_of (Date 2025 1 6)) = 1
   \<and> failure_retries (st_data_handler (snd (generate_weekly_report
        (sample_world (Completion (Some sample_report_text))) sample_now
        (sample_state sample_failed_store) 7 (Date 2025 1 6) True))) 7 (Date 2025 1 6) = []"
proof -
  let ?wd = "sample_world (Completion (Some sample_report_text))"
  let ?r = "generate_weekly_report ?wd sample_now (sample_state sample_failed_store) 7 (Date 2025 1 6) True"
  have b: "failure_retries (st_data_handler (sample_state sample_failed_store)) 7 (Date 2025 1 6)
       = [Some 5, Some 6]"
    by (simp add: failure_retries_def sample_state_def sample_failed_store_def json_failures_def
          initial_data_def sample_failure_def)
  note t = generate_success_stores_and_clears [OF sample_generation_succeeds]
  from t [THEN conjunct1] obtain week_end x where
    o: "w_service ?wd (st_requests (sample_state sample_failed_store)) = Completion (Some x)"
    and k: "get_weekly_report (st_data_handler (snd ?r)) 7 (Date 2025 1 6)
              = Some \<lparr> rp_week_start = Date 2025 1 6, rp_week_end = week_end,
                       rp_generated_at = store_clock sample_now (st_data_handler (sample_state sample_failed_store)),
                       rp_report_content = strip x,
                       rp_input_data = w_format_session_data ?wd
                         (get_week_sessions (st_data_handler (sample_state sample_failed_store)) 7 (Date 2025 1 6)),
                       rp_data_days_count = days_with_entries
                         (get_week_sessions (st_data_handler (sample_state sample_failed_store)) 7 (Date 2025 1 6)),
                       rp_week_number = iso_week (Date 2025 1 6), rp_year = year (Date 2025 1 6),
                       rp_llm_model = Some (w_model ?wd), rp_generation_attempts = 1 \<rparr>"
    by blast
  from o have x: "x = sample_report_text"
    by (simp add: sample_world_def)
  have c: "map_option rp_report_content (get_weekly_report (st_data_handler (snd ?r)) 7 (Date 2025 1 6))
       = Some sample_report_text"
    unfolding k x by (simp add: strip_sample_report)
  have d: "map_option rp_week_start (get_weekly_report (st_data_handler (snd ?r)) 7 (Date 2025 1 6))
       = Some (Date 2025 1 6)"
    unfolding k by simp
  show ?thesis
    by (intro conjI) (rule sample_generation_succeeds b c d t [THEN conjunct2, THEN conjunct1]
          t [THEN conjunct2, THEN conjunct2])+
qed

section \<open>A failed generation\<close>

lemma failure_retries_save_other:
  "(u', w') \<noteq> (u, w) \<Longrightarrow>
   failure_retries (save_failed_report_attempt now dh u w e m r) u' w' = failure_retries dh u' w'"
  by (cases dh)
     (auto simp: failure_retries_def save_failed_report_attempt_def json_failures_def
        json_save_failed_report_attempt_def sql_save_failed_report_attempt_def in_group_def
        update_conv' Let_def split: option.splits)

lemma failure_retries_handle_other:
  "(u', w') \<noteq> (u, w) \<Longrightarrow>
   failure_retries (st_data_handler (handle_report_generation_failure now st u w e m t)) u' w'
     = failure_retries (st_data_handler st) u' w'"
  by (simp add: handle_report_generation_failure_def Let_def failure_retries_notify_llm
        notify_user_of_failure_def failure_retries_save_other)

lemma user_messages_summary:
  "user_messages (st_sent (snd (send_daily_admin_summary t st))) = user_messages (st_sent st)"
  using send_cases [of t st]
  by (auto simp: user_messages_def is_admin_summary_def)

lemma user_messages_notify_llm:
  "user_messages (st_sent (notify_llm_failure t st u e m)) = user_messages (st_sent st)"
  by (simp add: notify_llm_failure_def Let_def user_messages_summary)

lemma user_messages_handle:
  "user_messages (st_sent (handle_report_generation_failure now st u w e m t))
     = user_messages (st_sent st)
       @ (if st_bot_application st then [FailureNotice u w (now + timedelta_days 2)] else [])"
  by (simp add: handle_report_generation_failure_def Let_def user_messages_notify_llm
        notify_user_of_failure_def)
     (simp add: user_messages_def is_admin_summary_def)

lemma handle_without_application:
  "\<not> st_bot_application st \<Longrightarrow>
   handle_report_generation_failure now st u w e m t
     = st\<lparr> st_data_handler :=
            save_failed_report_attempt now (st_data_handler st) u w e m (Some (now + timedelta_days 2)) \<rparr>"
  by (simp add: handle_report_generation_failure_def Let_def notify_user_of_failure_def)

lemma pending_after_add:
  "llm_issue (sql_clock now db) u m t e
     \<in> set (pending_now now (add_issue_for_notification now (SQLiteBackend db) ''llm_failure'' u
               (''Model: '' @ m @ '', Error: '' @ t @ '': '' @ e)))"
  by (simp add: pending_now_def add_issue_for_notification_def add_admin_notification_def
        get_admin_notifications_def sql_get_admin_notifications_def sql_add_admin_notification_def
        Let_def llm_issue_def issue_of_def is_summary_def image_iff sql_clock_def)

lemma forwarded_notify_llm:
  assumes "st_data_handler st = SQLiteBackend db"
  shows "forwarded now (notify_llm_failure now st u (t @ '': '' @ e) m)
           (llm_issue (sql_clock now db) u m t e)"
proof -
  let ?dh1 = "add_issue_for_notification now (SQLiteBackend db) ''llm_failure'' u
               (''Model: '' @ m @ '', Error: '' @ t @ '': '' @ e)"
  let ?st1 = "st\<lparr> st_data_handler := ?dh1 \<rparr>"
  let ?i = "llm_issue (sql_clock now db) u m t e"
  have p: "?i \<in> set (pending_now now ?dh1)"
    by (rule pending_after_add)
  have f1: "forwarded now ?st1 ?i"
    using p by (simp add: forwarded_def)
  have f2: "forwarded now (snd (send_daily_admin_summary now ?st1)) ?i"
  proof (cases "fst (send_daily_admin_summary now ?st1)")
    case True
    from send_true_effect(2) [OF True] p show ?thesis
      by (simp add: forwarded_def in_summary_def list_ex_iff)
  next
    case False
    then show ?thesis
      using f1 by (simp add: send_false_unchanged)
  qed
  show ?thesis
    using assms f1 f2 by (simp add: notify_llm_failure_def Let_def)
qed

lemma forwarded_handle:
  assumes "st_data_handler st = SQLiteBackend db" and "st_bot_application st"
  shows "forwarded now (handle_report_generation_failure now st u w e m t)
           (llm_issue (sql_clock now db) u m t e)"
proof -
  let ?db' = "sql_save_failed_report_attempt now db u w e m (Some (now + timedelta_days 2))"
  have d: "save_failed_report_attempt now (st_data_handler st) u w e m
             (Some (now + timedelta_days 2)) = SQLiteBackend ?db'"
    using assms(1) by (simp add: save_failed_report_attempt_def)
  have c: "sql_clock now ?db' = sql_clock now db"
    by (simp add: sql_clock_def sql_save_failed_report_attempt_def)
  let ?st2 = "st\<lparr> st_data_handler := SQLiteBackend ?db',
                 st_sent := st_sent st @ [FailureNotice u w (now + timedelta_days 2)] \<rparr>"
  have "forwarded now (notify_llm_failure now ?st2 u (t @ '': '' @ e) m)
          (llm_issue (sql_clock now ?db') u m t e)"
    by (rule forwarded_notify_llm) simp
  then show ?thesis
    using assms(2) d c
    by (simp add: handle_report_generation_failure_def Let_def notify_user_of_failure_def)
qed

lemma notify_llm_failure_json:
  "st_data_handler st = JSONBackend d \<Longrightarrow> notify_llm_failure now st u e m = st"
  by (simp add: notify_llm_failure_def Let_def add_issue_for_notification_def
        add_admin_notification_def should_notify_admin_today_def get_admin_notifications_def)

lemma week_sessions_sample_sql:
  "get_week_sessions sample_sql_store 7 (Date 2025 1 6) = sample_week"
  by code_simp
lemma model_used: "md_model_used (snd (snd (generate_report model outcome))) = model"
  by (simp add: generate_report_def split: api_outcome.splits)

lemma generate_weekly_report_fails:
  assumes "fst (validate_data_sufficiency (get_week_sessions (st_data_handler st) u w))"
    and "\<not> fst (generate_report (w_model wd) (w_service wd (st_requests st)))"
  shows "generate_weekly_report wd now st u w is_retry
           = ((False, fst (snd (generate_report (w_model wd) (w_service wd (st_requests st))))),
              (if is_retry
               then st\<lparr> st_generate_calls := st_generate_calls st @ [(u, w, is_retry)],
                        st_requests := st_requests st + 1 \<rparr>
               else handle_report_generation_failure now
                      (st\<lparr> st_generate_calls := st_generate_calls st @ [(u, w, is_retry)],
                           st_requests := st_requests st + 1 \<rparr>) u w
                      (fst (snd (generate_report (w_model wd) (w_service wd (st_requests st)))))
                      (w_model wd)
                      (error_type_of (snd (snd (generate_report (w_model wd)
                                                  (w_service wd (st_requests st))))))))"
  using assms
  by (simp add: generate_weekly_report_def Let_def model_used error_type_of_def)

text \<open>
  What a failed generation does in general: called with \<open>is_retry=False\<close> it adds exactly
  one failure record with the retry time \<open>now + 2 days\<close> for the user and week and leaves
  the records of every other user or week as they were; with the bot application set it
  sends the user one notice of the failure and the retry date; with the application set and
  the SQLite backend the failure reaches the admin queue (it is pending there, or it was
  listed in a summary sent at once). Called with \<open>is_retry=True\<close> the store and the sent
  messages are as before.
\<close>

lemma failed_generation_path:
  assumes "fst (validate_data_sufficiency (get_week_sessions (st_data_handler st) u w))"
    and "\<not> fst (generate_report (w_model wd) (w_service wd (st_requests st)))"
  shows "\<not> fst (fst (generate_weekly_report wd now st u w is_retry))
       \<and> failure_retries (st_data_handler (snd (generate_weekly_report wd now st u w False))) u w
           = failure_retries (st_data_handler st) u w @ [Some (now + timedelta_days 2)]
       \<and> ((u', w') \<noteq> (u, w) \<longrightarrow>
            failure_retries (st_data_handler (snd (generate_weekly_report wd now st u w False))) u' w'
              = failure_retries (st_data_handler st) u' w')
       \<and> user_messages (st_sent (snd (generate_weekly_report wd now st u w False)))
           = user_messages (st_sent st)
             @ (if st_bot_application st then [FailureNotice u w (now + timedelta_days 2)] else [])
       \<and> (st_bot_application st \<and> st_data_handler st = SQLiteBackend db \<longrightarrow>
            forwarded now (snd (generate_weekly_report wd now st u w False))
              (llm_issue (sql_clock now db) u (w_model wd)
                 (error_type_of (snd (snd (generate_report (w_model wd) (w_service wd (st_requests st))))))
                 (fst (snd (generate_report (w_model wd) (w_service wd (st_requests st)))))))
       \<and> st_data_handler (snd (generate_weekly_report wd now st u w True)) = st_data_handler st
       \<and> st_sent (snd (generate_weekly_report wd now st u w True)) = st_sent st"
proof -
  note r = generate_weekly_report_fails [OF assms]
  have 1: "\<not> fst (fst (generate_weekly_report wd now st u w is_retry))"
    by (simp add: r)
  have 2: "failure_retries (st_data_handler (snd (generate_weekly_report wd now st u w False))) u w
           = failure_retries (st_data_handler st) u w @ [Some (now + timedelta_days 2)]"
    by (simp add: r failure_retries_handle)
  have 3: "(u', w') \<noteq> (u, w) \<longrightarrow>
            failure_retries (st_data_handler (snd (generate_weekly_report wd now st u w False))) u' w'
              = failure_retries (st_data_handler st) u' w'"
    by (simp add: r failure_retries_handle_other)
  have 4: "user_messages (st_sent (snd (generate_weekly_report wd now st u w False)))
           = user_messages (st_sent st)
             @ (if st_bot_application st then [FailureNotice u w (now + timedelta_days 2)] else [])"
    by (simp add: r user_messages_handle)
  have 5: "st_bot_application st \<and> st_data_handler st = SQLiteBackend db \<longrightarrow>
            forwarded now (snd (generate_weekly_report wd now st u w False))
              (llm_issue (sql_clock now db) u (w_model wd)
                 (error_type_of (snd (snd (generate_report (w_model wd) (w_service wd (st_requests st))))))
                 (fst (snd (generate_report (w_model wd) (w_service wd (st_requests st))))))"
    by (simp add: r forwarded_handle)
  have 6: "st_data_handler (snd (generate_weekly_report wd now st u w True)) = st_data_handler st"
    by (simp add: r)
  have 7: "st_sent (snd (generate_weekly_report wd now st u w True)) = st_sent st"
    by (simp add: r)
  show ?thesis
    by (intro conjI) (rule 1 2 3 4 5 6 7)+
qed

text \<open>
  C5: a failed generation with \<open>is_retry=False\<close> is to store one failure record with the
  retry time \<open>now + 2 days\<close>, send the user one notice and forward the failure to the admin
  queue. With the JSON backend active and the bot application set, the record is stored and
  the notice is sent, but nothing reaches the admin: \<open>add_issue_for_notification\<close> calls
  \<open>add_admin_notification\<close>, which only the SQLite backend has, and the \<open>AttributeError\<close>
  is caught and logged. No queue entry is pending afterwards and no summary was sent.
\<close>

theorem failed_generation_not_forwarded:
  "fst (generate_weekly_report (sample_world (APITimeoutError ''timed out'')) sample_now
       (sample_state (JSONBackend (initial_data\<lparr>jd_responses := sample_week\<rparr>))) 7 (Date 2025 1 6) False)
     = (False, ''LLM request timeout: timed out'')
   \<and> st_bot_application (sample_state (JSONBackend (initial_data\<lparr>jd_responses := sample_week\<rparr>)))
   \<and> failure_retries (st_data_handler (snd (generate_weekly_report
       (sample_world (APITimeoutError ''timed out'')) sample_now
       (sample_state (JSONBackend (initial_data\<lparr>jd_responses := sample_week\<rparr>))) 7 (Date 2025 1 6) False)))
       7 (Date 2025 1 6) = [Some (sample_now + timedelta_days 2)]
   \<and> st_sent (snd (generate_weekly_report
       (sample_world (APITimeoutError ''timed out'')) sample_now
       (sample_state (JSONBackend (initial_data\<lparr>jd_responses := sample_week\<rparr>))) 7 (Date 2025 1 6) False))
       = [FailureNotice 7 (Date 2025 1 6) (sample_now + timedelta_days 2)]
   \<and> get_admin_notifications sample_now (st_data_handler (snd (generate_weekly_report
       (sample_world (APITimeoutError ''timed out'')) sample_now
       (sample_state (JSONBackend (initial_data\<lparr>jd_responses := sample_week\<rparr>))) 7 (Date 2025 1 6) False)))
       = Inl AttributeError
   \<and> \<not> forwarded sample_now (snd (generate_weekly_report
       (sample_world (APITimeoutError ''timed out'')) sample_now
       (sample_state (JSONBackend (initial_data\<lparr>jd_responses := sample_week\<rparr>))) 7 (Date 2025 1 6) False))
       (llm_issue sample_now 7 ''openai/gpt-5'' ''timeout'' ''LLM request timeout: timed out'')"
proof -
  have vj: "fst (validate_data_sufficiency (get_week_sessions
              (JSONBackend (initial_data\<lparr>jd_responses := sample_week\<rparr>)) 7 (Date 2025 1 6)))"
    using week_sessions_sample validate_sample_week by simp
  have g: "\<not> fst (generate_report ''openai/gpt-5'' (APITimeoutError ''timed out''))"
    by (simp add: generate_report_def)
  have b: "generate_weekly_report (sample_world (APITimeoutError ''timed out'')) sample_now
             (sample_state (JSONBackend (initial_data\<lparr>jd_responses := sample_week\<rparr>))) 7 (Date 2025 1 6) False
           = ((False, ''LLM request timeout: timed out''),
              \<lparr> st_data_handler = save_failed_report_attempt sample_now
                    (JSONBackend (initial_data\<lparr>jd_responses := sample_week\<rparr>)) 7 (Date 2025 1 6)
                    ''LLM request timeout: timed out'' ''openai/gpt-5'' (Some (sample_now + timedelta_days 2)),
                st_bot_application = True,
                st_sent = [FailureNotice 7 (Date 2025 1 6) (sample_now + timedelta_days 2)],
                st_requests = 1, st_generate_calls = [(7, Date 2025 1 6, False)] \<rparr>)"
    using vj g
    by (simp add: generate_weekly_report_fails sample_state_def sample_world_def generate_report_def
          handle_report_generation_failure_def notify_user_of_failure_def notify_llm_failure_def
          add_issue_for_notification_def add_admin_notification_def should_notify_admin_today_def
          get_admin_notifications_def save_failed_report_attempt_def Let_def)
  show ?thesis
    unfolding b
    by (simp add: failure_retries_def pending_now_def get_admin_notifications_def forwarded_def
          in_summary_def save_failed_report_attempt_def json_save_failed_report_attempt_def
          json_failures_def initial_data_def sample_state_def Let_def)
qed

section \<open>The retry sweep at the cap\<close>

lemma generate_retry_trace:
  "st_sent (snd (generate_weekly_report wd now st u w True)) = st_sent st
   \<and> st_generate_calls (snd (generate_weekly_report wd now st u w True))
       = st_generate_calls st @ [(u, w, True)]
   \<and> st_bot_application (snd (generate_weekly_report wd now st u w True)) = st_bot_application st"
  by (simp add: generate_weekly_report_def Let_def split: sum.splits)

lemma retry_one_capped: "3 \<le> ri_attempts ri \<Longrightarrow> retry_one wd now ri st = st"
  by (simp add: retry_one_def)

lemma retry_one_other:
  assumes "(ri_user_id ri, ri_week_start ri) \<noteq> (u, w)"
  shows "filter (call_for u w) (st_generate_calls (retry_one wd now ri st))
           = filter (call_for u w) (st_generate_calls st)
       \<and> filter (notice_for u w) (st_sent (retry_one wd now ri st))
           = filter (notice_for u w) (st_sent st)"
  using assms generate_retry_trace [of wd now st "ri_user_id ri" "ri_week_start ri"]
  by (auto simp: retry_one_def Let_def call_for_def notice_for_def
        notify_user_retry_success_def notify_user_max_retries_def)

lemma sweep_skips_capped:
  assumes "\<forall>ri \<in> set pending. ri_user_id ri = u \<and> ri_week_start ri = w \<longrightarrow> 3 \<le> ri_attempts ri"
  shows "filter (call_for u w) (st_generate_calls (fold (retry_one wd now) pending st))
           = filter (call_for u w) (st_generate_calls st)
       \<and> filter (notice_for u w) (st_sent (fold (retry_one wd now) pending st))
           = filter (notice_for u w) (st_sent st)"
  using assms
proof (induction pending arbitrary: st)
  case Nil
  then show ?case by simp
next
  case (Cons ri pending)
  show ?case
  proof (cases "(ri_user_id ri, ri_week_start ri) = (u, w)")
    case True
    with Cons.prems have "3 \<le> ri_attempts ri" by simp
    then have "retry_one wd now ri st = st" by (rule retry_one_capped)
    with Cons show ?thesis by simp
  next
    case False
    from retry_one_other [OF False, of wd now st] Cons.IH [of "retry_one wd now ri st"] Cons.prems
    show ?thesis by simp
  qed
qed

lemma json_pending_capped:
  assumes "distinct (map fst (jd_failed_reports d))"
    and "3 \<le> length (filter (\<lambda>f. fl_week_start f = w \<and> json_is_due now f) (json_failures d u))"
    and "ri \<in> set (json_get_pending_report_retries now d)"
    and "ri_user_id ri = u" and "ri_week_start ri = w"
  shows "3 \<le> ri_attempts ri"
proof -
  from assms(3) obtain u' fs where m: "(u', fs) \<in> set (jd_failed_reports d)"
    and r: "ri \<in> set (json_user_retries now u' fs)"
    by (auto simp: json_get_pending_report_retries_def)
  from r assms(4) have "u' = u"
    by (auto simp: json_user_retries_def)
  with m assms(1) have "json_failures d u = fs"
    by (simp add: json_failures_def)
  moreover from r assms(5) have "ri_attempts ri = length (filter (\<lambda>g. fl_week_start g = w) fs)"
    by (auto simp: json_user_retries_def)
  moreover have "length (filter (\<lambda>f. fl_week_start f = w \<and> json_is_due now f) fs)
                   \<le> length (filter (\<lambda>g. fl_week_start g = w) fs)"
    by (induction fs) auto
  ultimately show ?thesis using assms(2) by simp
qed

lemma sql_pending_capped:
  assumes "3 \<le> length (filter (\<lambda>r. in_group (u, w) r \<and> sql_is_due now r) (db_failed_reports db))"
    and "ri \<in> set (sql_get_pending_report_retries now db)"
    and "ri_user_id ri = u" and "ri_week_start ri = w"
  shows "3 \<le> ri_attempts ri"
proof -
  from assms(2,3,4) have "ri_attempts ri
      = length (filter (in_group (u, w)) (filter (sql_is_due now) (db_failed_reports db)))"
    by (auto simp: sql_get_pending_report_retries_def Let_def)
  moreover have "filter (in_group (u, w)) (filter (sql_is_due now) (db_failed_reports db))
      = filter (\<lambda>r. in_group (u, w) r \<and> sql_is_due now r) (db_failed_reports db)"
    by (simp add: conj_commute)
  ultimately show ?thesis using assms(1) by simp
qed

lemma pending_capped:
  assumes "keys_once dh" and "3 \<le> due_count now dh u w"
    and "ri \<in> set (get_pending_report_retries now dh)"
    and "ri_user_id ri = u" and "ri_week_start ri = w"
  shows "3 \<le> ri_attempts ri"
proof (cases dh)
  case (JSONBackend d)
  with assms show ?thesis
    using json_pending_capped [of d w now u ri]
    by (simp add: keys_once_def due_count_def get_pending_report_retries_def)
next
  case (SQLiteBackend db)
  with assms show ?thesis
    using sql_pending_capped [of u w now db ri]
    by (simp add: due_count_def get_pending_report_retries_def)
qed

text \<open>
  A user and week with 3 or more due failure records are skipped by the sweep:
  \<open>process_pending_retries\<close> does not invoke \<open>generate_weekly_report\<close> for them and sends
  that user no message about that week.
\<close>

lemma sweep_at_cap:
  assumes "keys_once (st_data_handler st)"
    and "3 \<le> due_count now (st_data_handler st) u w"
  shows "filter (call_for u w) (st_generate_calls (process_pending_retries wd now st))
           = filter (call_for u w) (st_generate_calls st)
       \<and> filter (notice_for u w) (st_sent (process_pending_retries wd now st))
           = filter (notice_for u w) (st_sent st)"
  unfolding process_pending_retries_def
  by (rule sweep_skips_capped) (use assms pending_capped in blast)

text \<open>
  A retry that fails for a user and week with two due records: the report is requested
  once more, the store is left as it was, and the user is sent the notice that the retries
  are exhausted.
\<close>

lemma retry_one_fails:
  assumes "ri_attempts ri = 2"
    and "fst (validate_data_sufficiency
                (get_week_sessions (st_data_handler st) (ri_user_id ri) (ri_week_start ri)))"
    and "\<not> fst (generate_report (w_model wd) (w_service wd (st_requests st)))"
    and "st_bot_application st"
  shows "retry_one wd now ri st
           = st\<lparr> st_generate_calls := st_generate_calls st @ [(ri_user_id ri, ri_week_start ri, True)],
                 st_requests := st_requests st + 1,
                 st_sent := st_sent st @ [MaxRetriesNotice (ri_user_id ri) (ri_week_start ri)] \<rparr>"
  using assms(1,4)
  by (simp add: retry_one_def Let_def generate_weekly_report_fails [OF assms(2,3)]
        notify_user_max_retries_def)

lemma sample_capped_facts:
  "keys_once sample_capped_store \<and> due_count sample_now sample_capped_store 7 (Date 2025 1 6) = 3"
  by code_simp

lemma sample_capped_pending:
  "get_pending_report_retries sample_now sample_capped_store
     = [\<lparr> ri_user_id = 7, ri_week_start = Date 2025 1 6, ri_original_error = ''timeout'', ri_attempts = 3 \<rparr>,
        \<lparr> ri_user_id = 7, ri_week_start = Date 2025 1 6, ri_original_error = ''timeout'', ri_attempts = 3 \<rparr>,
        \<lparr> ri_user_id = 7, ri_week_start = Date 2025 1 6, ri_original_error = ''timeout'', ri_attempts = 3 \<rparr>]"
  by code_simp

lemma sample_capped_sweep:
  "process_pending_retries wd sample_now (sample_state sample_capped_store)
     = sample_state sample_capped_store"
proof -
  have "st_data_handler (sample_state sample_capped_store) = sample_capped_store"
    by (simp add: sample_state_def)
  then show ?thesis
    unfolding process_pending_retries_def
    by (simp only: sample_capped_pending) (simp add: retry_one_def)
qed

lemma sample_retry_facts:
  "due_count sample_now sample_retry_store 7 (Date 2025 1 6) = 2
   \<and> due_count sample_next_sweep sample_retry_store 7 (Date 2025 1 6) = 2
   \<and> due_count sample_now sample_failed_store 7 (Date 2025 1 6) = 2"
  by code_simp

lemma sample_retry_pending:
  "get_pending_report_retries sample_now sample_retry_store
     = [\<lparr> ri_user_id = 7, ri_week_start = Date 2025 1 6, ri_original_error = ''timeout'', ri_attempts = 2 \<rparr>]"
  by code_simp

lemma sample_retry_pending_next:
  "get_pending_report_retries sample_next_sweep sample_retry_store
     = [\<lparr> ri_user_id = 7, ri_week_start = Date 2025 1 6, ri_original_error = ''timeout'', ri_attempts = 2 \<rparr>]"
  by code_simp

lemma sample_failed_pending:
  "get_pending_report_retries sample_now sample_failed_store
     = [\<lparr> ri_user_id = 7, ri_week_start = Date 2025 1 6, ri_original_error = ''timeout'', ri_attempts = 2 \<rparr>,
        \<lparr> ri_user_id = 7, ri_week_start = Date 2025 1 6, ri_original_error = ''timeout'', ri_attempts = 2 \<rparr>]"
  by code_simp

lemma week_sessions_sample_retry:
  "get_week_sessions sample_retry_store 7 (Date 2025 1 6) = sample_week"
  by code_simp

lemma week_sessions_sample_failed:
  "get_week_sessions sample_failed_store 7 (Date 2025 1 6) = sample_week"
  by code_simp

lemma sample_retry_one:
  assumes "st_data_handler st = sample_retry_store \<or> st_data_handler st = sample_failed_store"
    and "st_bot_application st"
  shows "retry_one (sample_world (APITimeoutError ''timed out'')) now
           \<lparr> ri_user_id = 7, ri_week_start = Date 2025 1 6, ri_original_error = ''timeout'',
             ri_attempts = 2 \<rparr> st
         = st\<lparr> st_generate_calls := st_generate_calls st @ [(7, Date 2025 1 6, True)],
               st_requests := st_requests st + 1,
               st_sent := st_sent st @ [MaxRetriesNotice 7 (Date 2025 1 6)] \<rparr>"
proof -
  let ?ri = "\<lparr> ri_user_id = 7, ri_week_start = Date 2025 1 6, ri_original_error = ''timeout'',
               ri_attempts = 2 \<rparr>"
  have w: "get_week_sessions (st_data_handler st) 7 (Date 2025 1 6) = sample_week"
    using assms(1) week_sessions_sample_retry week_sessions_sample_failed by auto
  have a: "ri_attempts ?ri = 2"
    by simp
  have v: "fst (validate_data_sufficiency
                  (get_week_sessions (st_data_handler st) (ri_user_id ?ri) (ri_week_start ?ri)))"
    using w validate_sample_week by simp
  have g: "\<not> fst (generate_report (w_model (sample_world (APITimeoutError ''timed out'')))
                    (w_service (sample_world (APITimeoutError ''timed out'')) (st_requests st)))"
    by (simp add: generate_report_def sample_world_def)
  from retry_one_fails [OF a v g assms(2), of now] show ?thesis
    by simp
qed

text \<open>
  C2: after three recorded failures of a user and week the sweep is to send that user the
  notice that the retries are exhausted exactly once. A failed retry stores no record, so
  what the sweep sends depends on the number of due records alone. With three due records
  for user 7 and the week of 2025-01-06 the sweep requests no report and sends nothing: no
  notice. With two due records and a service that fails, the SQLite sweep sends the notice,
  leaves the store as it was, and the next sweep six hours later sends the notice again;
  over the JSON store, which lists the week once per due record, one sweep requests the
  report twice and sends the notice twice.
\<close>

theorem retry_sweep_terminal_notice:
  "due_count sample_now sample_capped_store 7 (Date 2025 1 6) = 3
   \<and> st_bot_application (sample_state sample_capped_store)
   \<and> st_generate_calls (process_pending_retries (sample_world (APITimeoutError ''timed out''))
        sample_now (sample_state sample_capped_store)) = []
   \<and> st_sent (process_pending_retries (sample_world (APITimeoutError ''timed out''))
        sample_now (sample_state sample_capped_store)) = []
   \<and> due_count sample_now sample_retry_store 7 (Date 2025 1 6) = 2
   \<and> st_sent (process_pending_retries (sample_world (APITimeoutError ''timed out''))
        sample_now (sample_state sample_retry_store)) = [MaxRetriesNotice 7 (Date 2025 1 6)]
   \<and> st_data_handler (process_pending_retries (sample_world (APITimeoutError ''timed out''))
        sample_now (sample_state sample_retry_store)) = sample_retry_store
   \<and> due_count sample_next_sweep sample_retry_store 7 (Date 2025 1 6) = 2
   \<and> st_generate_calls (process_pending_retries (sample_world (APITimeoutError ''timed out''))
        sample_next_sweep
        (process_pending_retries (sample_world (APITimeoutError ''timed out''))
           sample_now (sample_state sample_retry_store)))
       = [(7, Date 2025 1 6, True), (7, Date 2025 1 6, True)]
   \<and> st_sent (process_pending_retries (sample_world (APITimeoutError ''timed out''))
        sample_next_sweep
        (process_pending_retries (sample_world (APITimeoutError ''timed out''))
           sample_now (sample_state sample_retry_store)))
       = [MaxRetriesNotice 7 (Date 2025 1 6), MaxRetriesNotice 7 (Date 2025 1 6)]
   \<and> due_count sample_now sample_failed_store 7 (Date 2025 1 6) = 2
   \<and> st_generate_calls (process_pending_retries (sample_world (APITimeoutError ''timed out''))
        sample_now (sample_state sample_failed_store))
       = [(7, Date 2025 1 6, True), (7, Date 2025 1 6, True)]
   \<and> st_sent (process_pending_retries (sample_world (APITimeoutError ''timed out''))
        sample_now (sample_state sample_failed_store))
       = [MaxRetriesNotice 7 (Date 2025 1 6), MaxRetriesNotice 7 (Date 2025 1 6)]"
proof -
  let ?wd = "sample_world (APITimeoutError ''timed out'')"
  let ?ri = "\<lparr> ri_user_id = 7, ri_week_start = Date 2025 1 6, ri_original_error = ''timeout'',
               ri_attempts = 2 \<rparr>"
  let ?s1 = "\<lparr> st_data_handler = sample_retry_store, st_bot_application = True,
               st_sent = [MaxRetriesNotice 7 (Date 2025 1 6)], st_requests = 1,
               st_generate_calls = [(7, Date 2025 1 6, True)] \<rparr>"
  have c: "due_count sample_now sample_capped_store 7 (Date 2025 1 6) = 3"
    using sample_capped_facts by simp
  have a: "st_bot_application (sample_state sample_capped_store)"
    by (simp add: sample_state_def)
  have n: "st_generate_calls (process_pending_retries ?wd sample_now (sample_state sample_capped_store)) = []
           \<and> st_sent (process_pending_retries ?wd sample_now (sample_state sample_capped_store)) = []"
    unfolding sample_capped_sweep by (simp add: sample_state_def)
  have r1: "retry_one ?wd sample_now ?ri (sample_state sample_retry_store) = ?s1"
    by (subst sample_retry_one) (simp_all add: sample_state_def)
  have p1: "process_pending_retries ?wd sample_now (sample_state sample_retry_store) = ?s1"
  proof -
    have "st_data_handler (sample_state sample_retry_store) = sample_retry_store"
      by (simp add: sample_state_def)
    then show ?thesis
      unfolding process_pending_retries_def
      by (simp only: sample_retry_pending fold.simps id_apply comp_apply r1)
  qed
  have r2: "retry_one ?wd sample_next_sweep ?ri ?s1
              = \<lparr> st_data_handler = sample_retry_store, st_bot_application = True,
                  st_sent = [MaxRetriesNotice 7 (Date 2025 1 6), MaxRetriesNotice 7 (Date 2025 1 6)],
                  st_requests = 2,
                  st_generate_calls = [(7, Date 2025 1 6, True), (7, Date 2025 1 6, True)] \<rparr>"
    by (subst sample_retry_one) simp_all
  have p2: "process_pending_retries ?wd sample_next_sweep ?s1
              = \<lparr> st_data_handler = sample_retry_store, st_bot_application = True,
                  st_sent = [MaxRetriesNotice 7 (Date 2025 1 6), MaxRetriesNotice 7 (Date 2025 1 6)],
                  st_requests = 2,
                  st_generate_calls = [(7, Date 2025 1 6, True), (7, Date 2025 1 6, True)] \<rparr>"
  proof -
    have "st_data_handler ?s1 = sample_retry_store"
      by simp
    then show ?thesis
      unfolding process_pending_retries_def
      by (simp only: sample_retry_pending_next fold.simps id_apply comp_apply r2)
  qed
  have j1: "retry_one ?wd sample_now ?ri (sample_state sample_failed_store)
              = \<lparr> st_data_handler = sample_failed_store, st_bot_application = True,
                  st_sent = [MaxRetriesNotice 7 (Date 2025 1 6)], st_requests = 1,
                  st_generate_calls = [(7, Date 2025 1 6, True)] \<rparr>"
    by (subst sample_retry_one) (simp_all add: sample_state_def)
  have j2: "retry_one ?wd sample_now ?ri
              \<lparr> st_data_handler = sample_failed_store, st_bot_application = True,
                st_sent = [MaxRetriesNotice 7 (Date 2025 1 6)], st_requests = 1,
                st_generate_calls = [(7, Date 2025 1 6, True)] \<rparr>
              = \<lparr> st_data_handler = sample_failed_store, st_bot_application = True,
                  st_sent = [MaxRetriesNotice 7 (Date 2025 1 6), MaxRetriesNotice 7 (Date 2025 1 6)],
                  st_requests = 2,
                  st_generate_calls = [(7, Date 2025 1 6, True), (7, Date 2025 1 6, True)] \<rparr>"
    by (subst sample_retry_one) simp_all
  have pj: "process_pending_retries ?wd sample_now (sample_state sample_failed_store)
              = \<lparr> st_data_handler = sample_failed_store, st_bot_application = True,
                  st_sent = [MaxRetriesNotice 7 (Date 2025 1 6), MaxRetriesNotice 7 (Date 2025 1 6)],
                  st_requests = 2,
                  st_generate_calls = [(7, Date 2025 1 6, True), (7, Date 2025 1 6, True)] \<rparr>"
  proof -
    have "st_data_handler (sample_state sample_failed_store) = sample_failed_store"
      by (simp add: sample_state_def)
    then show ?thesis
      unfolding process_pending_retries_def
      by (simp only: sample_failed_pending fold.simps id_apply comp_apply j1 j2)
  qed
  have d1: "due_count sample_now sample_retry_store 7 (Date 2025 1 6) = 2"
    using sample_retry_facts by simp
  have d2: "due_count sample_next_sweep sample_retry_store 7 (Date 2025 1 6) = 2"
    using sample_retry_facts by simp
  have d3: "due_count sample_now sample_failed_store 7 (Date 2025 1 6) = 2"
    using sample_retry_facts by simp
  have s1: "st_sent (process_pending_retries ?wd sample_now (sample_state sample_retry_store))
              = [MaxRetriesNotice 7 (Date 2025 1 6)]"
    unfolding p1 by simp
  have h1: "st_data_handler (process_pending_retries ?wd sample_now (sample_state sample_retry_store))
              = sample_retry_store"
    unfolding p1 by simp
  have g2: "st_generate_calls (process_pending_retries ?wd sample_next_sweep
              (process_pending_retries ?wd sample_now (sample_state sample_retry_store)))
              = [(7, Date 2025 1 6, True), (7, Date 2025 1 6, True)]"
    unfolding p1 p2 by simp
  have s2: "st_sent (process_pending_retries ?wd sample_next_sweep
              (process_pending_retries ?wd sample_now (sample_state sample_retry_store)))
              = [MaxRetriesNotice 7 (Date 2025 1 6), MaxRetriesNotice 7 (Date 2025 1 6)]"
    unfolding p1 p2 by simp
  have gj: "st_generate_calls (process_pending_retries ?wd sample_now (sample_state sample_failed_store))
              = [(7, Date 2025 1 6, True), (7, Date 2025 1 6, True)]"
    unfolding pj by simp
  have sj: "st_sent (process_pending_retries ?wd sample_now (sample_state sample_failed_store))
              = [MaxRetriesNotice 7 (Date 2025 1 6), MaxRetriesNotice 7 (Date 2025 1 6)]"
    unfolding pj by simp
  show ?thesis
    by (intro conjI) (rule c a n [THEN conjunct1] n [THEN conjunct2] d1 s1 h1 d2 g2 s2 d3 gj sj)+
qed

end
